theory Spec2Isabelle
  imports Complex_Main "HOL-Library.Code_Target_Numeral"
begin

section \<open>Python values\<close>

text \<open>
  The two notebooks are glue code: they read a configuration mapping, call functions of
  external libraries (spreco, numpy, tensorflow, the bart toolbox) and combine the results
  with a few Python and numpy operators. The embedding has three layers:
  \<^item> plain Python data (what a YAML document denotes) and the operators the scripts apply
    to it;
  \<^item> numpy arrays with the array operators the scripts apply themselves;
  \<^item> an error-and-state monad in which every call into a library goes through a
    parameter (\<open>lib\<close>, \<open>lib_arr\<close>) and is recorded in a trace.
  A Python float is a double, with the rounding of its arithmetic. The elements of an
  array are complex numbers with exact arithmetic. A string is the list of its code points,
  which are below 256.
\<close>

datatype error =
    KeyError string
  | TypeError
  | ValueError
  | IndexError
  | AxisError
  | AttributeError
  | OverflowError
  | ZeroDivisionError
  | LibraryError string

subsection \<open>Floating-point numbers\<close>

text \<open>
  A Python float is an IEEE 754 double: a finite number, the negative zero, an infinity or
  nan. \<open>Finite 0\<close> is the positive zero. The result of an arithmetic operation is the exact
  result rounded to the nearest double, ties to the even significand (\<open>to_double\<close>).
  \<open>binade n y 0\<close> is the exponent \<open>e\<close> with \<open>2 ^ e \<le> y < 2 ^ (e + 1)\<close>, found in at most
  \<open>n\<close> steps; 2200 steps reach every exponent of a double, and a number beyond them is
  rounded to an infinity or to a zero whatever exponent is found.
\<close>

datatype pyfloat = Finite real | NegZero | PosInf | NegInf | NaN

fun binade :: "nat \<Rightarrow> real \<Rightarrow> int \<Rightarrow> int" where
  "binade n y e =
     (if n = 0 then e
      else if 2 \<le> y then binade (n - 1) (y / 2) (e + 1)
      else if y < 1 then binade (n - 1) (2 * y) (e - 1)
      else e)"

declare binade.simps [simp del]

definition pow2 :: "int \<Rightarrow> real" where
  "pow2 k = (if 0 \<le> k then 2 ^ nat k else 1 / 2 ^ nat (- k))"

definition round_even :: "real \<Rightarrow> int" where
  "round_even y =
     (let f = \<lfloor>y\<rfloor>; r = y - of_int f
      in if r < 1 / 2 then f else if 1 / 2 < r then f + 1 else if even f then f else f + 1)"

text \<open>The distance between neighbouring doubles at \<open>x\<close>: 52 bits below the exponent of
  \<open>x\<close>, and \<open>2 ^ -1074\<close> in the subnormal range.\<close>

definition spacing :: "real \<Rightarrow> real" where
  "spacing x = pow2 (max (binade 2200 \<bar>x\<bar> 0) (- 1022) - 52)"

definition to_double :: "real \<Rightarrow> pyfloat" where
  "to_double x =
     (if x = 0 then Finite 0
      else let r = of_int (round_even (x / spacing x)) * spacing x
           in if 2 ^ 1024 \<le> \<bar>r\<bar> then (if x < 0 then NegInf else PosInf)
              else if r = 0 then (if x < 0 then NegZero else Finite 0)
              else Finite r)"

definition is_zero :: "pyfloat \<Rightarrow> bool" where
  "is_zero f = (f = Finite 0 \<or> f = NegZero)"

definition is_inf :: "pyfloat \<Rightarrow> bool" where
  "is_inf f = (f = PosInf \<or> f = NegInf)"

definition negative :: "pyfloat \<Rightarrow> bool" where
  "negative f = (case f of Finite x \<Rightarrow> x < 0 | NegZero \<Rightarrow> True | NegInf \<Rightarrow> True | _ \<Rightarrow> False)"

definition number :: "pyfloat \<Rightarrow> real" where
  "number f = (case f of Finite x \<Rightarrow> x | _ \<Rightarrow> 0)"

definition fneg :: "pyfloat \<Rightarrow> pyfloat" where
  "fneg f =
     (case f of
        Finite x \<Rightarrow> (if x = 0 then NegZero else Finite (- x))
      | NegZero \<Rightarrow> Finite 0
      | PosInf \<Rightarrow> NegInf
      | NegInf \<Rightarrow> PosInf
      | NaN \<Rightarrow> NaN)"

definition fmul :: "pyfloat \<Rightarrow> pyfloat \<Rightarrow> pyfloat" where
  "fmul a b =
     (if a = NaN \<or> b = NaN then NaN
      else if is_inf a \<or> is_inf b then
        (if is_zero a \<or> is_zero b then NaN
         else if negative a \<noteq> negative b then NegInf else PosInf)
      else if number a * number b = 0 then (if negative a \<noteq> negative b then NegZero else Finite 0)
      else to_double (number a * number b))"

definition fadd :: "pyfloat \<Rightarrow> pyfloat \<Rightarrow> pyfloat" where
  "fadd a b =
     (if a = NaN \<or> b = NaN then NaN
      else if is_inf a then (if is_inf b \<and> a \<noteq> b then NaN else a)
      else if is_inf b then b
      else if number a + number b = 0 then (if a = NegZero \<and> b = NegZero then NegZero else Finite 0)
      else to_double (number a + number b))"

definition fsub :: "pyfloat \<Rightarrow> pyfloat \<Rightarrow> pyfloat" where
  "fsub a b = fadd a (fneg b)"

text \<open>\<open>float(i)\<close> of an integer: the nearest double, and an error beyond the doubles.\<close>

definition float_of_int :: "int \<Rightarrow> error + pyfloat" where
  "float_of_int i = (if is_inf (to_double (of_int i)) then Inl OverflowError else Inr (to_double (of_int i)))"

datatype pyobj =
    PNone
  | PBool bool
  | PInt int
  | PFloat pyfloat
  | PStr string
  | PList "pyobj list"
  | PTuple "pyobj list"
  | PDict "(string \<times> pyobj) list"

record ndarray =
  shape :: "nat list"
  data :: "complex list"

datatype pyval =
    Plain pyobj
  | Arr ndarray
  | Func string
  | LibName string
  | Partial string "(string \<times> pyval) list"
  | Obj nat
  | Seq "pyval list"

subsection \<open>Operators on plain data\<close>

definition subscript :: "pyval \<Rightarrow> string \<Rightarrow> error + pyobj" where
  "subscript c k =
     (case c of
        Plain (PDict d) \<Rightarrow> (case map_of d k of None \<Rightarrow> Inl (KeyError k) | Some v \<Rightarrow> Inr v)
      | _ \<Rightarrow> Inl TypeError)"

definition has_key :: "pyval \<Rightarrow> string \<Rightarrow> error + bool" where
  "has_key c k =
     (case c of
        Plain (PDict d) \<Rightarrow> Inr (map_of d k \<noteq> None)
      | _ \<Rightarrow> Inl AttributeError)"

fun truthy :: "pyobj \<Rightarrow> bool" where
  "truthy PNone = False"
| "truthy (PBool b) = b"
| "truthy (PInt i) = (i \<noteq> 0)"
| "truthy (PFloat x) = (\<not> is_zero x)"
| "truthy (PStr s) = (s \<noteq> [])"
| "truthy (PList xs) = (xs \<noteq> [])"
| "truthy (PTuple xs) = (xs \<noteq> [])"
| "truthy (PDict d) = (d \<noteq> [])"

fun as_int :: "pyobj \<Rightarrow> int option" where
  "as_int (PBool b) = Some (if b then 1 else 0)"
| "as_int (PInt i) = Some i"
| "as_int _ = None"

text \<open>The float an arithmetic operator makes of a number operand.\<close>

definition as_float :: "pyobj \<Rightarrow> (error + pyfloat) option" where
  "as_float a =
     (case a of
        PFloat x \<Rightarrow> Some (Inr x)
      | _ \<Rightarrow> map_option float_of_int (as_int a))"

definition bind_err :: "error + 'a \<Rightarrow> ('a \<Rightarrow> error + 'b) \<Rightarrow> error + 'b" where
  "bind_err r f = (case r of Inl e \<Rightarrow> Inl e | Inr v \<Rightarrow> f v)"

definition float_op :: "(pyfloat \<Rightarrow> pyfloat \<Rightarrow> pyfloat) \<Rightarrow> error + pyfloat \<Rightarrow> error + pyfloat \<Rightarrow> error + pyobj" where
  "float_op f x y = bind_err x (\<lambda>u. bind_err y (\<lambda>v. Inr (PFloat (f u v))))"

definition repeat :: "int \<Rightarrow> 'a list \<Rightarrow> 'a list" where
  "repeat n xs = concat (replicate (nat n) xs)"

definition py_mul :: "pyobj \<Rightarrow> pyobj \<Rightarrow> error + pyobj" where
  "py_mul a b =
     (case (as_int a, as_int b) of
        (Some i, Some j) \<Rightarrow> Inr (PInt (i * j))
      | _ \<Rightarrow>
     (case (as_float a, as_float b) of
        (Some x, Some y) \<Rightarrow> float_op fmul x y
      | _ \<Rightarrow>
     (case (a, as_int b) of
        (PStr s, Some n) \<Rightarrow> Inr (PStr (repeat n s))
      | (PList xs, Some n) \<Rightarrow> Inr (PList (repeat n xs))
      | (PTuple xs, Some n) \<Rightarrow> Inr (PTuple (repeat n xs))
      | _ \<Rightarrow>
     (case (as_int a, b) of
        (Some n, PStr s) \<Rightarrow> Inr (PStr (repeat n s))
      | (Some n, PList xs) \<Rightarrow> Inr (PList (repeat n xs))
      | (Some n, PTuple xs) \<Rightarrow> Inr (PTuple (repeat n xs))
      | _ \<Rightarrow> Inl TypeError))))"

definition py_add :: "pyobj \<Rightarrow> pyobj \<Rightarrow> error + pyobj" where
  "py_add a b =
     (case (as_int a, as_int b) of
        (Some i, Some j) \<Rightarrow> Inr (PInt (i + j))
      | _ \<Rightarrow>
     (case (as_float a, as_float b) of
        (Some x, Some y) \<Rightarrow> float_op fadd x y
      | _ \<Rightarrow>
     (case (a, b) of
        (PStr s, PStr t) \<Rightarrow> Inr (PStr (s @ t))
      | (PList xs, PList ys) \<Rightarrow> Inr (PList (xs @ ys))
      | (PTuple xs, PTuple ys) \<Rightarrow> Inr (PTuple (xs @ ys))
      | _ \<Rightarrow> Inl TypeError)))"

definition py_sub :: "pyobj \<Rightarrow> pyobj \<Rightarrow> error + pyobj" where
  "py_sub a b =
     (case (as_int a, as_int b) of
        (Some i, Some j) \<Rightarrow> Inr (PInt (i - j))
      | _ \<Rightarrow>
     (case (as_float a, as_float b) of
        (Some x, Some y) \<Rightarrow> float_op fsub x y
      | _ \<Rightarrow> Inl TypeError))"

text \<open>\<open>a / b\<close> of two integers: the exact quotient rounded to the nearest double.\<close>

definition int_truediv :: "int \<Rightarrow> int \<Rightarrow> error + pyobj" where
  "int_truediv i j =
     (if j = 0 then Inl ZeroDivisionError
      else if i = 0 then Inr (PFloat (if j < 0 then NegZero else Finite 0))
      else if is_inf (to_double (of_int i / of_int j)) then Inl OverflowError
      else Inr (PFloat (to_double (of_int i / of_int j))))"

definition trunc :: "real \<Rightarrow> int" where
  "trunc x = (if 0 \<le> x then \<lfloor>x\<rfloor> else \<lceil>x\<rceil>)"

text \<open>What \<open>int(s)\<close> makes of a string (Python 3.9, base 10): white space around the number
  is dropped, a sign may come first, and the digits may be grouped by single underscores.\<close>

definition py_space :: "char \<Rightarrow> bool" where
  "py_space c = (of_char c \<in> {9, 10, 11, 12, 13, 28, 29, 30, 31, 32, 133, 160 :: nat})"

definition is_digit :: "char \<Rightarrow> bool" where
  "is_digit c = (48 \<le> (of_char c :: nat) \<and> (of_char c :: nat) \<le> 57)"

definition strip :: "string \<Rightarrow> string" where
  "strip s = rev (dropWhile py_space (rev (dropWhile py_space s)))"

fun grouped :: "string \<Rightarrow> bool" where
  "grouped [] = False"
| "grouped [c] = is_digit c"
| "grouped (c # d # cs) =
     (is_digit c \<and> (if d = CHR ''_'' then grouped cs else grouped (d # cs)))"

definition digits_value :: "string \<Rightarrow> int" where
  "digits_value s = foldl (\<lambda>n c. 10 * n + (int (of_char c) - 48)) 0 (filter is_digit s)"

definition parse_int :: "string \<Rightarrow> int option" where
  "parse_int s =
     (case strip s of
        [] \<Rightarrow> None
      | c # cs \<Rightarrow>
          if c = CHR ''-'' then (if grouped cs then Some (- digits_value cs) else None)
          else if c = CHR ''+'' then (if grouped cs then Some (digits_value cs) else None)
          else if grouped (c # cs) then Some (digits_value (c # cs)) else None)"

text \<open>The builtin \<open>int(x)\<close>.\<close>

definition py_int :: "pyobj \<Rightarrow> error + pyobj" where
  "py_int a =
     (case a of
        PBool b \<Rightarrow> Inr (PInt (if b then 1 else 0))
      | PInt i \<Rightarrow> Inr (PInt i)
      | PFloat (Finite x) \<Rightarrow> Inr (PInt (trunc x))
      | PFloat NegZero \<Rightarrow> Inr (PInt 0)
      | PFloat NaN \<Rightarrow> Inl ValueError
      | PFloat _ \<Rightarrow> Inl OverflowError
      | PStr s \<Rightarrow> (case parse_int s of Some i \<Rightarrow> Inr (PInt i) | None \<Rightarrow> Inl ValueError)
      | _ \<Rightarrow> Inl TypeError)"

text \<open>\<open>os.path.join(a, b)\<close> of posixpath, for two components.\<close>

definition path_join :: "string \<Rightarrow> string \<Rightarrow> string" where
  "path_join a b =
     (if b \<noteq> [] \<and> hd b = CHR ''/'' then b
      else if a = [] \<or> last a = CHR ''/'' then a @ b
      else a @ ''/'' @ b)"

definition os_path_join :: "pyval \<Rightarrow> pyval \<Rightarrow> error + pyval" where
  "os_path_join a b =
     (case (a, b) of
        (Plain (PStr s), Plain (PStr t)) \<Rightarrow> Inr (Plain (PStr (path_join s t)))
      | _ \<Rightarrow> Inl TypeError)"

subsection \<open>The \<open>%\<close> string formatting operator\<close>

fun digits :: "nat \<Rightarrow> string" where
  "digits n = (if n < 10 then [''0123456789'' ! n] else digits (n div 10) @ [''0123456789'' ! (n mod 10)])"

declare digits.simps [simp del]

definition fmt_int :: "int \<Rightarrow> string" where
  "fmt_int i = (if i < 0 then CHR ''-'' # digits (nat (- i)) else digits (nat i))"

definition round_half_even :: "real \<Rightarrow> nat" where
  "round_half_even y =
     (let f = nat \<lfloor>y\<rfloor>; r = y - of_int \<lfloor>y\<rfloor>
      in if r < 1 / 2 then f else if 1 / 2 < r then f + 1 else if even f then f else f + 1)"

text \<open>\<open>%f\<close> of a finite number: six decimals of its exact value, ties to even.\<close>

definition fmt_float :: "real \<Rightarrow> string" where
  "fmt_float x =
     (let n = round_half_even (\<bar>x\<bar> * 1000000);
          frac = digits (n mod 1000000)
      in (if x < 0 then ''-'' else '''') @ digits (n div 1000000) @ ''.'' @
         replicate (6 - length frac) CHR ''0'' @ frac)"

definition fmt_d :: "pyobj \<Rightarrow> error + string" where
  "fmt_d a =
     (case a of
        PFloat _ \<Rightarrow> (case py_int a of Inr (PInt i) \<Rightarrow> Inr (fmt_int i) | Inl e \<Rightarrow> Inl e | _ \<Rightarrow> Inl TypeError)
      | _ \<Rightarrow> (case as_int a of Some i \<Rightarrow> Inr (fmt_int i) | None \<Rightarrow> Inl TypeError))"

definition fmt_f :: "pyobj \<Rightarrow> error + string" where
  "fmt_f a =
     (case as_float a of
        None \<Rightarrow> Inl TypeError
      | Some (Inl e) \<Rightarrow> Inl e
      | Some (Inr (Finite x)) \<Rightarrow> Inr (fmt_float x)
      | Some (Inr NegZero) \<Rightarrow> Inr ''-0.000000''
      | Some (Inr PosInf) \<Rightarrow> Inr ''inf''
      | Some (Inr NegInf) \<Rightarrow> Inr ''-inf''
      | Some (Inr NaN) \<Rightarrow> Inr ''nan'')"

text \<open>\<open>template % (args)\<close> for templates whose directives are \<open>%d\<close> and \<open>%f\<close>.\<close>

fun py_format :: "string \<Rightarrow> pyobj list \<Rightarrow> error + string" where
  "py_format [] [] = Inr []"
| "py_format [] (a # as) = Inl TypeError"
| "py_format (c # cs) as =
     (if c = CHR ''%'' then
        (case cs of
           [] \<Rightarrow> Inl ValueError
         | k # rest \<Rightarrow>
             (case as of
                [] \<Rightarrow> Inl TypeError
              | a # as' \<Rightarrow>
                  (case (if k = CHR ''d'' then fmt_d a else if k = CHR ''f'' then fmt_f a else Inl ValueError) of
                     Inl e \<Rightarrow> Inl e
                   | Inr s \<Rightarrow> (case py_format rest as' of Inl e \<Rightarrow> Inl e | Inr t \<Rightarrow> Inr (s @ t)))))
      else (case py_format cs as of Inl e \<Rightarrow> Inl e | Inr t \<Rightarrow> Inr (c # t)))"

section \<open>numpy arrays\<close>

text \<open>
  An array is its shape and its elements in row-major order. \<open>indices sh\<close> lists the
  multi-indices of shape \<open>sh\<close> in that order and \<open>offset sh idx\<close> is the position of
  \<open>idx\<close> in the element list.
\<close>

fun indices :: "nat list \<Rightarrow> nat list list" where
  "indices [] = [[]]"
| "indices (n # sh) = concat (map (\<lambda>i. map ((#) i) (indices sh)) [0..<n])"

fun offset :: "nat list \<Rightarrow> nat list \<Rightarrow> nat" where
  "offset (n # sh) (i # idx) = i * prod_list sh + offset sh idx"
| "offset _ _ = 0"

fun in_bounds :: "nat list \<Rightarrow> nat list \<Rightarrow> bool" where
  "in_bounds [] [] = True"
| "in_bounds (n # sh) (i # idx) = (i < n \<and> in_bounds sh idx)"
| "in_bounds _ _ = False"

definition item :: "ndarray \<Rightarrow> nat list \<Rightarrow> complex" where
  "item a idx = data a ! offset (shape a) idx"

definition well_shaped :: "ndarray \<Rightarrow> bool" where
  "well_shaped a = (length (data a) = prod_list (shape a))"

definition np_squeeze :: "ndarray \<Rightarrow> ndarray" where
  "np_squeeze a = a\<lparr>shape := filter (\<lambda>n. n \<noteq> 1) (shape a)\<rparr>"

text \<open>\<open>a[np.newaxis, ...]\<close> and \<open>a[..., np.newaxis]\<close>.\<close>

definition newaxis_front :: "ndarray \<Rightarrow> ndarray" where
  "newaxis_front a = a\<lparr>shape := 1 # shape a\<rparr>"

definition newaxis_back :: "ndarray \<Rightarrow> ndarray" where
  "newaxis_back a = a\<lparr>shape := shape a @ [1]\<rparr>"

definition np_abs :: "ndarray \<Rightarrow> ndarray" where
  "np_abs a = a\<lparr>data := map (\<lambda>z. of_real (cmod z)) (data a)\<rparr>"

definition np_conj :: "ndarray \<Rightarrow> ndarray" where
  "np_conj a = a\<lparr>data := map cnj (data a)\<rparr>"

text \<open>Broadcasting: shapes are aligned at their last axis, a missing or unit axis is
  stretched, any other mismatch is an error.\<close>

definition bdim :: "nat \<Rightarrow> nat \<Rightarrow> nat option" where
  "bdim a b = (if a = b then Some a else if a = 1 then Some b else if b = 1 then Some a else None)"

definition pad :: "nat \<Rightarrow> nat list \<Rightarrow> nat list" where
  "pad n sh = replicate (n - length sh) 1 @ sh"

fun bshape :: "nat list \<Rightarrow> nat list \<Rightarrow> nat list option" where
  "bshape [] [] = Some []"
| "bshape (a # as) (b # bs) =
     (case bdim a b of None \<Rightarrow> None | Some d \<Rightarrow> map_option ((#) d) (bshape as bs))"
| "bshape _ _ = None"

definition broadcast_shape :: "nat list \<Rightarrow> nat list \<Rightarrow> nat list option" where
  "broadcast_shape s t = (let n = max (length s) (length t) in bshape (pad n s) (pad n t))"

fun bindex :: "nat list \<Rightarrow> nat list \<Rightarrow> nat list" where
  "bindex (d # sh) (i # idx) = (if d = 1 then 0 else i) # bindex sh idx"
| "bindex _ _ = []"

definition bitem :: "ndarray \<Rightarrow> nat list \<Rightarrow> complex" where
  "bitem a idx =
     (let sh = pad (length idx) (shape a) in data a ! offset sh (bindex sh idx))"

definition np_binop :: "(complex \<Rightarrow> complex \<Rightarrow> complex) \<Rightarrow> ndarray \<Rightarrow> ndarray \<Rightarrow> error + ndarray" where
  "np_binop f a b =
     (case broadcast_shape (shape a) (shape b) of
        None \<Rightarrow> Inl ValueError
      | Some sh \<Rightarrow> Inr \<lparr>shape = sh, data = map (\<lambda>idx. f (bitem a idx) (bitem b idx)) (indices sh)\<rparr>)"

definition np_multiply :: "ndarray \<Rightarrow> ndarray \<Rightarrow> error + ndarray" where
  "np_multiply = np_binop (*)"

definition np_add :: "ndarray \<Rightarrow> ndarray \<Rightarrow> error + ndarray" where
  "np_add = np_binop (+)"

definition np_scale :: "complex \<Rightarrow> ndarray \<Rightarrow> ndarray" where
  "np_scale c a = a\<lparr>data := map ((*) c) (data a)\<rparr>"

text \<open>\<open>np.sum(a, axis=ax)\<close>.\<close>

definition along :: "nat \<Rightarrow> ndarray \<Rightarrow> nat list \<Rightarrow> complex list" where
  "along ax a idx = map (\<lambda>k. item a (take ax idx @ k # drop ax idx)) [0..<shape a ! ax]"

definition drop_axis :: "nat \<Rightarrow> nat list \<Rightarrow> nat list" where
  "drop_axis ax sh = take ax sh @ drop (Suc ax) sh"

definition np_sum :: "nat \<Rightarrow> ndarray \<Rightarrow> error + ndarray" where
  "np_sum ax a =
     (if length (shape a) \<le> ax then Inl AxisError
      else Inr \<lparr>shape = drop_axis ax (shape a),
                data = map (\<lambda>idx. sum_list (along ax a idx)) (indices (drop_axis ax (shape a)))\<rparr>)"

section \<open>Library calls\<close>

text \<open>
  \<open>world\<close> is what a library call can depend on and change outside the script: the state
  of numpy's global random generator (\<open>rng\<close>) and everything else (\<open>env\<close>: clock, files,
  devices). \<open>lib\<close> is a library function that returns a Python value, \<open>lib_arr\<close> one that
  returns an array; both get the qualified name, the positional and the keyword arguments.
  Each call is logged with its arguments and with what it returned or raised (\<open>Call\<close>). An
  operator that the script applies itself and that raises is logged with its name and the
  exception (\<open>Fault\<close>).
\<close>

record world =
  rng :: nat
  env :: nat

type_synonym kwargs = "(string \<times> pyval) list"

record ext =
  lib :: "string \<Rightarrow> pyval list \<Rightarrow> kwargs \<Rightarrow> world \<Rightarrow> (error + pyval) \<times> world"
  lib_arr :: "string \<Rightarrow> pyval list \<Rightarrow> kwargs \<Rightarrow> world \<Rightarrow> (error + ndarray) \<times> world"

datatype event =
    Call (fname: string) (args: "pyval list") (kws: kwargs) (result: "error + pyval")
  | Fault (fname: string) error
where
  "args (Fault f e) = []"
| "kws (Fault f e) = []"
| "result (Fault f e) = Inl e"

record state =
  outside :: world
  trace :: "event list"

type_synonym 'a prog = "state \<Rightarrow> (error + 'a) \<times> state"

definition ret :: "'a \<Rightarrow> 'a prog" where
  "ret x = (\<lambda>s. (Inr x, s))"

text \<open>An operator of Python or numpy that the script applies itself, with the value or the
  exception it gives; the exception is an event of the run.\<close>

definition lift :: "string \<Rightarrow> error + 'a \<Rightarrow> 'a prog" where
  "lift op r =
     (\<lambda>s. case r of
            Inr v \<Rightarrow> (Inr v, s)
          | Inl e \<Rightarrow> (Inl e, \<lparr>outside = outside s, trace = trace s @ [Fault op e]\<rparr>))"

text \<open>The operators that the two notebooks apply.\<close>

definition operators :: "string list" where
  "operators =
     [''[]'', ''unpack'', ''keys'', ''%'', ''*'', ''+'', ''-'', ''/'', ''neg'', ''int'', ''range'',
      ''os.path.join'', ''np.multiply'', ''np.sum'']"

definition bind :: "'a prog \<Rightarrow> ('a \<Rightarrow> 'b prog) \<Rightarrow> 'b prog" where
  "bind m f = (\<lambda>s. case m s of (Inl e, s') \<Rightarrow> (Inl e, s') | (Inr x, s') \<Rightarrow> f x s')"

definition raised :: "event \<Rightarrow> error option" where
  "raised ev = (case result ev of Inl e \<Rightarrow> Some e | Inr _ \<Rightarrow> None)"

definition call :: "ext \<Rightarrow> string \<Rightarrow> pyval list \<Rightarrow> kwargs \<Rightarrow> pyval prog" where
  "call x f as kw =
     (\<lambda>s. case lib x f as kw (outside s) of
            (r, w) \<Rightarrow> (r, \<lparr>outside = w, trace = trace s @ [Call f as kw r]\<rparr>))"

definition call_arr :: "ext \<Rightarrow> string \<Rightarrow> pyval list \<Rightarrow> kwargs \<Rightarrow> ndarray prog" where
  "call_arr x f as kw =
     (\<lambda>s. case lib_arr x f as kw (outside s) of
            (r, w) \<Rightarrow> (r, \<lparr>outside = w, trace = trace s @ [Call f as kw (map_sum id Arr r)]\<rparr>))"

section \<open>The reconstruction notebook\<close>

subsection \<open>\<open>prepare_simu\<close>\<close>

definition unpack3 :: "nat list \<Rightarrow> error + nat \<times> nat \<times> nat" where
  "unpack3 sh = (case sh of [a, b, c] \<Rightarrow> Inr (a, b, c) | _ \<Rightarrow> Inl ValueError)"

definition ecalib :: string where
  "ecalib = ''ecalib -m1 -r20 -c0.001''"

definition poisson_template :: string where
  "poisson_template = ''poisson -Y %d -Z %d -y %f -z %f -s 1234 -v -C %d''"

definition gen_mask :: "ext \<Rightarrow> pyval \<Rightarrow> nat \<Rightarrow> nat \<Rightarrow> ndarray prog" where
  "gen_mask x config nx ny =
     bind (lift ''[]'' (subscript config ''poisson'')) (\<lambda>poisson.
       if \<not> truthy poisson then
         bind (lift ''[]'' (subscript config ''cal'')) (\<lambda>cal.
         bind (lift ''[]'' (subscript config ''sampling_rate'')) (\<lambda>rate.
           call_arr x ''sampling_pattern.gen_mask_2D''
             [Plain (PInt (int nx)), Plain (PInt (int ny))]
             [(''center_r'', Plain cal), (''undersampling'', Plain rate)]))
       else
         bind (lift ''[]'' (subscript config ''fx'')) (\<lambda>fx.
         bind (lift ''[]'' (subscript config ''fy'')) (\<lambda>fy.
         bind (lift ''[]'' (subscript config ''cal'')) (\<lambda>cal.
         bind (lift ''%'' (py_format poisson_template [PInt (int nx), PInt (int ny), fx, fy, cal])) (\<lambda>cmd.
         bind (call_arr x ''utils.bart'' [Plain (PInt 1), Plain (PStr cmd)] []) (\<lambda>mask.
           ret (np_squeeze mask)))))))"

text \<open>\<open>kspace*abs(mask[..., np.newaxis])\<close>.\<close>

definition undersample :: "ndarray \<Rightarrow> ndarray \<Rightarrow> error + ndarray" where
  "undersample kspace mask' = np_multiply kspace (np_abs (newaxis_back mask'))"

type_synonym simu = "ndarray \<times> ndarray \<times> ndarray \<times> (nat \<times> nat) \<times> ndarray \<times> ndarray"

definition prepare_simu :: "ext \<Rightarrow> pyval \<Rightarrow> ndarray option \<Rightarrow> simu prog" where
  "prepare_simu x config mask0 =
     bind (lift ''[]'' (subscript config ''ksp_path'')) (\<lambda>ksp_path.
     bind (call x ''np.load'' [Plain ksp_path] []) (\<lambda>npz.
     bind (call_arr x ''NpzFile.__getitem__'' [npz, Plain (PStr ''kspace'')] []) (\<lambda>loaded.
     let kspace = np_squeeze loaded in
     bind (lift ''unpack'' (unpack3 (shape kspace))) (\<lambda>(nx, ny, nc).
     bind (call_arr x ''utils.bart'' [Plain (PInt 1), Plain (PStr ecalib), Arr (newaxis_front kspace)] []) (\<lambda>maps.
     let coilsen = np_squeeze maps;
         img_shape = Plain (PList [PInt (int nx), PInt (int ny)]) in
     bind (call_arr x ''ops.mifft2'' [Arr kspace, img_shape] []) (\<lambda>std_coils.
     bind (lift ''np.multiply'' (np_multiply std_coils (np_squeeze (np_conj coilsen)))) (\<lambda>weighted.
     bind (lift ''np.sum'' (np_sum 2 weighted)) (\<lambda>rss.
     bind (case mask0 of None \<Rightarrow> gen_mask x config nx ny | Some m \<Rightarrow> ret m) (\<lambda>mask.
     bind (lift ''*'' (undersample kspace mask)) (\<lambda>und_ksp.
     bind (call_arr x ''utils.bart'' [Plain (PInt 1), Plain (PStr ecalib), Arr (newaxis_front kspace)] []) (\<lambda>maps'.
     let coilsen = np_squeeze (np_squeeze maps') in
     bind (call_arr x ''ops.AT_cart'' [Arr und_ksp, Arr coilsen, Arr mask, img_shape] []) (\<lambda>x_zf.
       ret (x_zf, mask, coilsen, (nx, ny), rss, und_ksp)))))))))))))"

subsection \<open>Loading the configuration and seeding\<close>

definition recon_config_path :: string where
  "recon_config_path = ''/content/spreco/scripts/recon_config.yaml''"

definition load_configs :: "ext \<Rightarrow> (pyval \<times> pyval) prog" where
  "load_configs x =
     bind (call x ''utils.load_config'' [Plain (PStr recon_config_path)] []) (\<lambda>config.
     bind (lift ''[]'' (subscript config ''model_folder'')) (\<lambda>folder.
     bind (lift ''+'' (py_add folder (PStr ''/config.yaml''))) (\<lambda>path.
     bind (call x ''utils.load_config'' [Plain path] []) (\<lambda>model_config.
       ret (config, model_config)))))"

definition model_path :: "pyval \<Rightarrow> pyval prog" where
  "model_path config =
     bind (lift ''[]'' (subscript config ''model_folder'')) (\<lambda>folder.
     bind (lift ''[]'' (subscript config ''model_name'')) (\<lambda>name.
       lift ''os.path.join'' (os_path_join (Plain folder) (Plain name))))"

definition seed_twice :: "ext \<Rightarrow> pyval \<Rightarrow> unit prog" where
  "seed_twice x model_config =
     bind (lift ''[]'' (subscript model_config ''seed'')) (\<lambda>seed.
     bind (call x ''np.random.seed'' [Plain seed] []) (\<lambda>_.
     bind (lift ''[]'' (subscript model_config ''seed'')) (\<lambda>seed'.
     bind (call x ''np.random.seed'' [Plain seed'] []) (\<lambda>_. ret ()))))"

subsection \<open>The cell around \<open>prepare_simu\<close>\<close>

text \<open>\<open>a[:, :, np.newaxis, :]\<close>: three axes are indexed, so the array needs three.\<close>

definition newaxis_2 :: "ndarray \<Rightarrow> error + ndarray" where
  "newaxis_2 a =
     (if length (shape a) < 3 then Inl IndexError
      else Inr (a\<lparr>shape := take 2 (shape a) @ 1 # drop 2 (shape a)\<rparr>))"

record prepared =
  zero_filled :: ndarray
  mask' :: ndarray
  coilsen :: ndarray
  rss :: ndarray
  und_ksp :: ndarray
  l1_recon :: ndarray
  AHA :: pyval

definition after_prepare :: "ext \<Rightarrow> simu \<Rightarrow> prepared prog" where
  "after_prepare x = (\<lambda>(x_zf, mask, coilsen, (nx, ny), rss, und_ksp).
     bind (call_arr x ''utils.normalize_with_max'' [Arr x_zf] []) (\<lambda>normalized.
     bind (call_arr x ''utils.float2cplx'' [Arr normalized] []) (\<lambda>zero_filled.
     bind (lift ''[]'' (newaxis_2 und_ksp)) (\<lambda>und4.
     bind (lift ''[]'' (newaxis_2 coilsen)) (\<lambda>coils4.
     bind (call_arr x ''utils.bart'' [Plain (PInt 1), Plain (PStr ''pics -l1 -r 0.01''), Arr und4, Arr coils4] []) (\<lambda>l1_recon.
     let grad_params =
           [(''coilsen'', Arr (newaxis_front coilsen)),
            (''mask'', Arr (newaxis_front mask)),
            (''shape'', Plain (PTuple [PInt (int nx), PInt (int ny)])),
            (''center'', Plain (PBool False))]
     in ret \<lparr>zero_filled = zero_filled, mask' = mask, coilsen = coilsen, rss = rss,
              und_ksp = und_ksp, l1_recon = l1_recon, AHA = Partial ''ops.AHA'' grad_params\<rparr>))))))"

subsection \<open>Operators on values of the library\<close>

text \<open>
  A value that a library call returned is a plain value, an array, a sequence, or an object
  of the library. An operator applied to plain values is Python's; applied to anything else
  it is a method of the library's object, that is, a call into the library.
\<close>

definition unary :: "ext \<Rightarrow> string \<Rightarrow> (pyobj \<Rightarrow> error + pyobj) \<Rightarrow> pyval \<Rightarrow> pyval prog" where
  "unary x op f a =
     (case a of
        Plain p \<Rightarrow> bind (lift op (f p)) (\<lambda>r. ret (Plain r))
      | _ \<Rightarrow> call x op [a] [])"

definition binary :: "ext \<Rightarrow> string \<Rightarrow> (pyobj \<Rightarrow> pyobj \<Rightarrow> error + pyobj) \<Rightarrow> pyval \<Rightarrow> pyval \<Rightarrow> pyval prog" where
  "binary x op f a b =
     (case (a, b) of
        (Plain p, Plain q) \<Rightarrow> bind (lift op (f p q)) (\<lambda>r. ret (Plain r))
      | _ \<Rightarrow> call x op [a, b] [])"

text \<open>The items of an iterable, as unpacking takes them.\<close>

definition rows :: "ndarray \<Rightarrow> error + ndarray list" where
  "rows a =
     (case shape a of
        [] \<Rightarrow> Inl TypeError
      | n # sh \<Rightarrow> Inr (map (\<lambda>i. \<lparr>shape = sh, data = take (prod_list sh) (drop (i * prod_list sh) (data a))\<rparr>) [0..<n]))"

definition items :: "ext \<Rightarrow> pyval \<Rightarrow> pyval list prog" where
  "items x v =
     (case v of
        Seq xs \<Rightarrow> ret xs
      | Plain (PList ps) \<Rightarrow> ret (map Plain ps)
      | Plain (PTuple ps) \<Rightarrow> ret (map Plain ps)
      | Plain (PStr s) \<Rightarrow> ret (map (\<lambda>c. Plain (PStr [c])) s)
      | Plain (PDict d) \<Rightarrow> ret (map (\<lambda>k. Plain (PStr k)) (remdups (map fst d)))
      | Plain _ \<Rightarrow> lift ''unpack'' (Inl TypeError)
      | Arr a \<Rightarrow> bind (lift ''unpack'' (rows a)) (\<lambda>rs. ret (map Arr rs))
      | _ \<Rightarrow> bind (call x ''iter'' [v] []) (\<lambda>it.
               case it of Seq xs \<Rightarrow> ret xs | _ \<Rightarrow> lift ''unpack'' (Inl TypeError)))"

definition unpack2 :: "ext \<Rightarrow> pyval \<Rightarrow> (pyval \<times> pyval) prog" where
  "unpack2 x v =
     bind (items x v) (\<lambda>xs.
       case xs of [a, b] \<Rightarrow> ret (a, b) | _ \<Rightarrow> lift ''unpack'' (Inl ValueError))"

definition unpack4 :: "ext \<Rightarrow> pyval \<Rightarrow> (pyval \<times> pyval \<times> pyval \<times> pyval) prog" where
  "unpack4 x v =
     bind (items x v) (\<lambda>xs.
       case xs of [a, b, c, d] \<Rightarrow> ret (a, b, c, d) | _ \<Rightarrow> lift ''unpack'' (Inl ValueError))"

subsection \<open>Indexing arrays\<close>

text \<open>The positions a slice \<open>lo:hi:step\<close> selects on an axis of length \<open>n\<close>
  (\<open>lo\<close>, \<open>hi\<close> not negative, \<open>step\<close> positive).\<close>

definition slice_positions :: "nat \<Rightarrow> nat \<Rightarrow> nat \<Rightarrow> nat \<Rightarrow> nat list" where
  "slice_positions lo hi step n = filter (\<lambda>k. (k - lo) mod step = 0) [min lo n..<min hi n]"

definition take_axis :: "nat \<Rightarrow> nat list \<Rightarrow> ndarray \<Rightarrow> error + ndarray" where
  "take_axis ax ks a =
     (if length (shape a) \<le> ax then Inl IndexError
      else let sh = (shape a)[ax := length ks]
           in Inr \<lparr>shape = sh, data = map (\<lambda>idx. item a (idx[ax := ks ! (idx ! ax)])) (indices sh)\<rparr>)"

text \<open>\<open>a[..., lo:hi:step, ...]\<close> with the slice at axis \<open>ax\<close>, and \<open>a[..., k, ...]\<close> with the index
  there.\<close>

definition slice_axis :: "nat \<Rightarrow> nat \<Rightarrow> nat \<Rightarrow> nat \<Rightarrow> ndarray \<Rightarrow> error + ndarray" where
  "slice_axis ax lo hi step a =
     (if length (shape a) \<le> ax then Inl IndexError
      else take_axis ax (slice_positions lo hi step (shape a ! ax)) a)"

definition index_axis :: "nat \<Rightarrow> nat \<Rightarrow> ndarray \<Rightarrow> error + ndarray" where
  "index_axis ax k a =
     (if length (shape a) \<le> ax then Inl IndexError
      else if shape a ! ax \<le> k then Inl IndexError
      else Inr \<lparr>shape = drop_axis ax (shape a),
                data = map (\<lambda>idx. item a (take ax idx @ k # drop ax idx)) (indices (drop_axis ax (shape a)))\<rparr>)"

definition index_last :: "nat \<Rightarrow> ndarray \<Rightarrow> error + ndarray" where
  "index_last k a = (if shape a = [] then Inl IndexError else index_axis (length (shape a) - 1) k a)"

text \<open>\<open>a[-1]\<close>, \<open>a[i, j]\<close> and \<open>a.shape[0]\<close>.\<close>

definition index_end :: "ndarray \<Rightarrow> error + ndarray" where
  "index_end a =
     (case shape a of [] \<Rightarrow> Inl IndexError | n # _ \<Rightarrow> if n = 0 then Inl IndexError else index_axis 0 (n - 1) a)"

definition index_pair :: "nat \<Rightarrow> nat \<Rightarrow> ndarray \<Rightarrow> error + ndarray" where
  "index_pair i j a =
     (if length (shape a) < 2 then Inl IndexError
      else bind_err (index_axis 0 i a) (index_axis 0 j))"

definition first_dim :: "ndarray \<Rightarrow> error + nat" where
  "first_dim a = (case shape a of [] \<Rightarrow> Inl IndexError | n # _ \<Rightarrow> Inr n)"

subsection \<open>The sampler cell\<close>

text \<open>\<open>default if key not in config.keys() else config[key]\<close>.\<close>

definition opt_key :: "pyval \<Rightarrow> string \<Rightarrow> pyobj \<Rightarrow> pyobj prog" where
  "opt_key config k d =
     bind (lift ''keys'' (has_key config k)) (\<lambda>present.
       if \<not> present then ret d else lift ''[]'' (subscript config k))"

definition py_neg :: "pyobj \<Rightarrow> error + pyobj" where
  "py_neg a =
     (case a of
        PFloat f \<Rightarrow> Inr (PFloat (fneg f))
      | _ \<Rightarrow> (case as_int a of Some i \<Rightarrow> Inr (PInt (- i)) | None \<Rightarrow> Inl TypeError))"

text \<open>\<open>xs[lower:]\<close>: a negative bound counts from the end, and the bound is clipped to the
  sequence. The bound of a slice is an integer.\<close>

definition slice_from :: "int \<Rightarrow> 'a list \<Rightarrow> 'a list" where
  "slice_from lower xs =
     (let n = int (length xs);
          k = (if lower < 0 then max 0 (n + lower) else min lower n)
      in drop (nat k) xs)"

definition slice_start :: "pyval \<Rightarrow> error + int" where
  "slice_start v =
     (case v of
        Plain p \<Rightarrow> (case as_int p of Some i \<Rightarrow> Inr i | None \<Rightarrow> Inl TypeError)
      | _ \<Rightarrow> Inl TypeError)"

definition tail_of :: "ext \<Rightarrow> pyval \<Rightarrow> pyval \<Rightarrow> pyval prog" where
  "tail_of x images lower =
     (case (images, lower) of
        (Seq xs, Plain _) \<Rightarrow> bind (lift ''[]'' (slice_start lower)) (\<lambda>k. ret (Seq (slice_from k xs)))
      | (Plain (PList xs), Plain _) \<Rightarrow>
          bind (lift ''[]'' (slice_start lower)) (\<lambda>k. ret (Plain (PList (slice_from k xs))))
      | (Plain (PTuple xs), Plain _) \<Rightarrow>
          bind (lift ''[]'' (slice_start lower)) (\<lambda>k. ret (Plain (PTuple (slice_from k xs))))
      | (Plain (PStr s), Plain _) \<Rightarrow>
          bind (lift ''[]'' (slice_start lower)) (\<lambda>k. ret (Plain (PStr (slice_from k s))))
      | (Plain _, _) \<Rightarrow> lift ''[]'' (Inl TypeError)
      | _ \<Rightarrow> call x ''[]'' [images, Seq [LibName ''slice'', lower, Plain PNone, Plain PNone]] [])"

definition burn_in_images :: "ext \<Rightarrow> pyval \<Rightarrow> pyval \<Rightarrow> pyval \<Rightarrow> ndarray prog" where
  "burn_in_images x config ins_sampler images =
     bind (call x ''posterior_sampler.sde.N'' [ins_sampler] []) (\<lambda>N.
     bind (lift ''[]'' (subscript config ''burn_t'')) (\<lambda>burn_t.
     bind (binary x ''*'' py_mul N (Plain burn_t)) (\<lambda>nb.
     bind (lift ''[]'' (subscript config ''c_steps'')) (\<lambda>c_steps.
     bind (binary x ''*'' py_mul nb (Plain c_steps)) (\<lambda>nbc.
     bind (unary x ''int'' py_int nbc) (\<lambda>whole.
     bind (lift ''[]'' (subscript config ''c_steps'')) (\<lambda>c_steps'.
     bind (binary x ''-'' py_sub whole (Plain c_steps')) (\<lambda>idx.
     bind (unary x ''neg'' py_neg idx) (\<lambda>lower.
     bind (tail_of x images lower) (\<lambda>kept.
     bind (call_arr x ''np.array'' [kept] []) (\<lambda>stacked.
       call_arr x ''utils.float2cplx'' [Arr stacked] [])))))))))))"

definition complex_images :: "ext \<Rightarrow> pyval \<Rightarrow> ndarray prog" where
  "complex_images x images =
     bind (call_arr x ''np.array'' [images] []) (\<lambda>stacked.
     bind (lift ''[]'' (index_last 0 stacked)) (\<lambda>re.
     bind (lift ''[]'' (index_last 1 stacked)) (\<lambda>im.
       lift ''+'' (np_add re (np_scale \<i> im)))))"

definition sampler_cell :: "ext \<Rightarrow> pyval \<Rightarrow> pyval \<Rightarrow> prepared \<Rightarrow> ndarray prog" where
  "sampler_cell x config model_config p =
     bind (lift ''[]'' (subscript model_config ''input_shape'')) (\<lambda>input_shape.
     bind (lift ''+'' (py_add (PList [PNone]) input_shape)) (\<lambda>x_shape.
     bind (call x ''tf.placeholder'' [LibName ''tf.float32''] [(''shape'', Plain x_shape)]) (\<lambda>xp.
     bind (call x ''tf.placeholder'' [LibName ''tf.float32''] [(''shape'', Plain (PList [PNone]))]) (\<lambda>tp.
     bind (call x ''sde'' [model_config] []) (\<lambda>ins_sde.
     bind (call x ''sde.net.forward'' [ins_sde, xp, tp] []) (\<lambda>_.
     bind (call x ''tf.trainable_variables'' [] []) (\<lambda>all_params.
     bind (call x ''tf.train.Saver'' [] []) (\<lambda>saver.
     bind (call x ''tf.Session'' [] []) (\<lambda>sess.
     bind (call x ''tf.global_variables_initializer'' [] []) (\<lambda>init.
     bind (call x ''tf.Session.run'' [sess, init] []) (\<lambda>_.
     bind (model_path config) (\<lambda>path.
     bind (call x ''tf.train.Saver.restore'' [saver, sess, path] []) (\<lambda>_.
     bind (lift ''[]'' (subscript config ''c_steps'')) (\<lambda>steps.
     bind (lift ''[]'' (subscript config ''target_snr'')) (\<lambda>target_snr.
     bind (lift ''[]'' (subscript config ''nr_samples'')) (\<lambda>nr_samples.
     bind (lift ''[]'' (subscript config ''burn_in'')) (\<lambda>burn_in.
     bind (lift ''[]'' (subscript config ''burn_t'')) (\<lambda>burn_t.
     bind (opt_key config ''ode'' (PBool False)) (\<lambda>ode.
     bind (opt_key config ''ext_iter'' (PInt 0)) (\<lambda>ext_iter.
     bind (opt_key config ''disable_z'' (PBool False)) (\<lambda>disable_z.
     bind (opt_key config ''use_pixelcnn'' (PBool False)) (\<lambda>use_pixelcnn.
     bind (call x ''posterior_sampler'' [ins_sde]
             [(''steps'', Plain steps), (''target_snr'', Plain target_snr),
              (''nr_samples'', Plain nr_samples), (''burn_in'', Plain burn_in),
              (''burn_t'', Plain burn_t), (''ode'', Plain ode), (''ext_iter'', Plain ext_iter),
              (''disable_z'', Plain disable_z), (''use_pixelcnn'', Plain use_pixelcnn)]) (\<lambda>ins_sampler.
     bind (lift ''[]'' (subscript config ''s_stepsize'')) (\<lambda>s_stepsize.
     bind (lift ''[]'' (subscript config ''st'')) (\<lambda>st.
     bind (call x ''posterior_sampler.conditional_ancestral_sampler''
             [ins_sampler, xp, tp, sess, AHA p, Arr (newaxis_front (zero_filled p)), Plain s_stepsize]
             [(''st'', Plain st)]) (\<lambda>images.
     bind (lift ''[]'' (subscript config ''burn_in'')) (\<lambda>burn.
       if truthy burn then burn_in_images x config ins_sampler images
       else complex_images x images)))))))))))))))))))))))))))"

text \<open>The script up to the call \<open>prepare_simu(config)\<close>.\<close>

definition simulate :: "ext \<Rightarrow> (pyval \<times> pyval \<times> simu) prog" where
  "simulate x =
     bind (load_configs x) (\<lambda>(config, model_config).
     bind (model_path config) (\<lambda>path.
     bind (seed_twice x model_config) (\<lambda>_.
     bind (prepare_simu x config None) (\<lambda>simu.
       ret (config, model_config, simu)))))"

subsection \<open>Normalising the results\<close>

record normalized =
  normalized_zero_filled :: ndarray
  normalized_l1_recon :: ndarray
  normalized_rss :: ndarray
  normalized_rets :: ndarray
  total_steps :: nat

definition axes_2_3 :: pyval where
  "axes_2_3 = Plain (PTuple [PInt 2, PInt 3])"

definition normalize_cell :: "ext \<Rightarrow> prepared \<Rightarrow> ndarray \<Rightarrow> normalized prog" where
  "normalize_cell x p images =
     bind (call_arr x ''np.abs'' [Arr images] []) (\<lambda>magnitude.
     bind (call_arr x ''abs'' [Arr images] []) (\<lambda>magnitude'.
     bind (call_arr x ''np.max'' [Arr magnitude'] [(''axis'', axes_2_3)]) (\<lambda>peak.
     bind (call_arr x ''/'' [Arr magnitude, Arr (newaxis_back (newaxis_back peak))] []) (\<lambda>mag_rets.
     bind (call_arr x ''abs'' [Arr (rss p)] []) (\<lambda>mag_rss.
     bind (call x ''np.linalg.norm'' [Arr (zero_filled p)] []) (\<lambda>norm_zf.
     bind (call_arr x ''/'' [Arr (zero_filled p), norm_zf] []) (\<lambda>scaled_zf.
     bind (call_arr x ''abs'' [Arr scaled_zf] []) (\<lambda>normalized_zero_filled.
     bind (call x ''np.linalg.norm'' [Arr (l1_recon p)] []) (\<lambda>norm_l1.
     bind (call_arr x ''/'' [Arr (l1_recon p), norm_l1] []) (\<lambda>scaled_l1.
     bind (call_arr x ''abs'' [Arr scaled_l1] []) (\<lambda>normalized_l1_recon.
     bind (call x ''np.linalg.norm'' [Arr mag_rss] []) (\<lambda>norm_rss.
     bind (call_arr x ''/'' [Arr mag_rss, norm_rss] []) (\<lambda>normalized_rss.
     bind (call x ''np.linalg.norm'' [Arr mag_rets]
             [(''axis'', axes_2_3), (''keepdims'', Plain (PBool True))]) (\<lambda>norm_rets.
     bind (call_arr x ''/'' [Arr mag_rets, norm_rets] []) (\<lambda>normalized_rets.
     bind (lift ''[]'' (first_dim mag_rets)) (\<lambda>n_steps.
       ret \<lparr>normalized_zero_filled = normalized_zero_filled, normalized_l1_recon = normalized_l1_recon,
            normalized_rss = normalized_rss, normalized_rets = normalized_rets,
            total_steps = n_steps\<rparr>))))))))))))))))"

subsection \<open>Expectation estimates and their metrics\<close>

definition step_size :: nat where
  "step_size = 1"

record expectations =
  normalized_expectation_1 :: ndarray
  normalized_expectation_2 :: ndarray
  normalized_expectation_4 :: ndarray
  normalized_expectation_8 :: ndarray
  normalized_expectation_10 :: ndarray

text \<open>\<open>rets[:total_steps:step_size, lo:hi, ...]\<close>, the samples \<open>lo\<close> to \<open>hi - 1\<close> of every
  iteration, and \<open>np.mean(..., axis=1)\<close> of them. The script slices, numpy averages.\<close>

definition samples_slice :: "nat \<Rightarrow> nat \<Rightarrow> nat \<Rightarrow> ndarray \<Rightarrow> error + ndarray" where
  "samples_slice n_steps lo hi rets =
     (if length (shape rets) < 2 then Inl IndexError
      else bind_err (slice_axis 0 0 n_steps step_size rets) (slice_axis 1 lo hi 1))"

definition first_sample :: "nat \<Rightarrow> ndarray \<Rightarrow> error + ndarray" where
  "first_sample n_steps rets =
     (if length (shape rets) < 2 then Inl IndexError
      else bind_err (slice_axis 0 0 n_steps step_size rets) (index_axis 1 0))"

definition np_mean :: "ext \<Rightarrow> ndarray \<Rightarrow> ndarray prog" where
  "np_mean x a = call_arr x ''np.mean'' [Arr a] [(''axis'', Plain (PInt 1))]"

definition mean_of_samples :: "ext \<Rightarrow> nat \<Rightarrow> nat \<Rightarrow> nat \<Rightarrow> ndarray \<Rightarrow> ndarray prog" where
  "mean_of_samples x n_steps lo hi rets =
     bind (lift ''[]'' (samples_slice n_steps lo hi rets)) (np_mean x)"

definition expectation_estimates :: "ext \<Rightarrow> nat \<Rightarrow> ndarray \<Rightarrow> expectations prog" where
  "expectation_estimates x n_steps rets =
     bind (lift ''[]'' (first_sample n_steps rets)) (\<lambda>e1.
     bind (mean_of_samples x n_steps 0 2 rets) (\<lambda>e2.
     bind (mean_of_samples x n_steps 1 4 rets) (\<lambda>e4.
     bind (mean_of_samples x n_steps 1 8 rets) (\<lambda>e8.
     bind (lift ''[]'' (slice_axis 0 0 n_steps step_size rets)) (\<lambda>every.
     bind (np_mean x every) (\<lambda>e10.
       ret \<lparr>normalized_expectation_1 = e1, normalized_expectation_2 = e2,
            normalized_expectation_4 = e4, normalized_expectation_8 = e8,
            normalized_expectation_10 = e10\<rparr>))))))"

definition metric_pair :: "ext \<Rightarrow> ndarray \<Rightarrow> nat \<Rightarrow> ndarray \<Rightarrow> (pyval \<times> pyval) prog" where
  "metric_pair x e i reference =
     bind (lift ''[]'' (index_axis 0 i e)) (\<lambda>img.
     bind (call x ''utils.psnr'' [Arr img, Arr reference] []) (\<lambda>p.
     bind (lift ''[]'' (index_axis 0 i e)) (\<lambda>img'.
     bind (call x ''utils.ssim'' [Arr img', Arr reference] []) (\<lambda>q.
       ret (p, q)))))"

definition metrics_row :: "ext \<Rightarrow> expectations \<Rightarrow> ndarray \<Rightarrow> nat \<Rightarrow> (pyval list \<times> pyval list) prog" where
  "metrics_row x es reference i =
     bind (metric_pair x (normalized_expectation_1 es) i reference) (\<lambda>(p1, q1).
     bind (metric_pair x (normalized_expectation_2 es) i reference) (\<lambda>(p2, q2).
     bind (metric_pair x (normalized_expectation_4 es) i reference) (\<lambda>(p4, q4).
     bind (metric_pair x (normalized_expectation_8 es) i reference) (\<lambda>(p8, q8).
     bind (metric_pair x (normalized_expectation_10 es) i reference) (\<lambda>(p10, q10).
       ret ([p1, p2, p4, p8, p10], [q1, q2, q4, q8, q10]))))))"

fun metrics_loop :: "ext \<Rightarrow> expectations \<Rightarrow> ndarray \<Rightarrow> nat list \<Rightarrow> (pyval list list \<times> pyval list list) prog" where
  "metrics_loop x es reference [] = ret ([], [])"
| "metrics_loop x es reference (i # is) =
     bind (metrics_row x es reference i) (\<lambda>(tmp_psnr, tmp_ssim).
     bind (metrics_loop x es reference is) (\<lambda>(psnrs, ssims).
       ret (tmp_psnr # psnrs, tmp_ssim # ssims)))"

text \<open>\<open>range(n)\<close> of an integer.\<close>

definition range_of :: "pyobj \<Rightarrow> error + nat list" where
  "range_of n = (case as_int n of Some i \<Rightarrow> Inr [0..<nat i] | None \<Rightarrow> Inl TypeError)"

definition metrics_cell :: "ext \<Rightarrow> normalized \<Rightarrow> (expectations \<times> ndarray \<times> ndarray) prog" where
  "metrics_cell x n =
     bind (expectation_estimates x (total_steps n) (normalized_rets n)) (\<lambda>es.
     bind (lift ''/'' (int_truediv (int (total_steps n)) (int step_size))) (\<lambda>quotient.
     bind (lift ''int'' (py_int quotient)) (\<lambda>count.
     bind (lift ''range'' (range_of count)) (\<lambda>steps.
     bind (metrics_loop x es (normalized_rss n) steps) (\<lambda>(psnrs, ssims).
     bind (call_arr x ''np.array'' [Seq (map Seq psnrs)] []) (\<lambda>psnrs'.
     bind (call_arr x ''np.array'' [Seq (map Seq ssims)] []) (\<lambda>ssims'.
       ret (es, psnrs', ssims'))))))))"

subsection \<open>The curves\<close>

text \<open>An \<open>import\<close> statement runs the module of the library.\<close>

definition import_module :: "ext \<Rightarrow> string \<Rightarrow> string list \<Rightarrow> pyval prog" where
  "import_module x name names = call x ''import'' [Plain (PStr name), Plain (PList (map PStr names))] []"

definition curve_label :: "int \<Rightarrow> string" where
  "curve_label c = (if c = 1 then fmt_int c @ '' sample'' else fmt_int c @ '' samples'')"

text \<open>\<open>for i, c in enumerate([1, 2, 4, 8, 10])\<close>.\<close>

fun plot_curves :: "ext \<Rightarrow> pyval \<Rightarrow> pyval \<Rightarrow> ndarray \<Rightarrow> ndarray \<Rightarrow> (nat \<times> int) list \<Rightarrow> unit prog" where
  "plot_curves x ax1 ax2 psnrs ssims [] = ret ()"
| "plot_curves x ax1 ax2 psnrs ssims ((i, c) # rest) =
     bind (lift ''[]'' (index_axis 1 i psnrs)) (\<lambda>column.
     bind (call x ''Axes.plot'' [ax1, Arr column] [(''label'', Plain (PStr (curve_label c)))]) (\<lambda>_.
     bind (lift ''[]'' (index_axis 1 i ssims)) (\<lambda>column'.
     bind (call x ''Axes.plot'' [ax2, Arr column'] [(''label'', Plain (PStr (curve_label c)))]) (\<lambda>_.
       plot_curves x ax1 ax2 psnrs ssims rest))))"

definition sample_counts :: "int list" where
  "sample_counts = [1, 2, 4, 8, 10]"

definition width_ratios :: "nat \<Rightarrow> pyval" where
  "width_ratios n = Plain (PDict [(''width_ratios'', PList (replicate n (PInt 1)))])"

definition decorate :: "ext \<Rightarrow> pyval \<Rightarrow> string \<Rightarrow> pyval prog" where
  "decorate x ax name =
     bind (call x ''Axes.set_xlabel'' [ax, Plain (PStr ''iteration'')] [(''fontsize'', Plain (PInt 17))]) (\<lambda>_.
     bind (call x ''Axes.set_ylabel'' [ax, Plain (PStr name)] [(''fontsize'', Plain (PInt 17))]) (\<lambda>_.
     bind (call x ''Axes.tick_params'' [ax] [(''labelsize'', Plain (PInt 12))]) (\<lambda>_.
       call x ''Axes.legend'' [ax] [(''loc'', Plain (PStr ''lower right''))])))"

definition curves_cell :: "ext \<Rightarrow> ndarray \<Rightarrow> ndarray \<Rightarrow> pyval prog" where
  "curves_cell x psnrs ssims =
     bind (import_module x ''matplotlib.pyplot'' []) (\<lambda>_.
     bind (call x ''plt.rcParams.__setitem__'' [Plain (PStr ''text.usetex''), Plain (PBool False)] []) (\<lambda>_.
     bind (import_module x ''math'' []) (\<lambda>_.
     bind (call x ''plt.subplots'' [Plain (PInt 1), Plain (PInt 2)]
             [(''figsize'', Plain (PTuple [PInt 15, PFloat (to_double 5.7)])),
              (''gridspec_kw'', width_ratios 2)]) (\<lambda>figure.
     bind (unpack2 x figure) (\<lambda>(fig, axes).
     bind (unpack2 x axes) (\<lambda>(ax1, ax2).
     bind (plot_curves x ax1 ax2 psnrs ssims (enumerate 0 sample_counts)) (\<lambda>_.
     bind (decorate x ax1 ''PSNR'') (\<lambda>_.
     bind (decorate x ax2 ''SSIM'') (\<lambda>_.
       call x ''plt.tight_layout'' [] [])))))))))"

subsection \<open>Comparing the reconstructions, and the grid of samples\<close>

text \<open>\<open>axplot = partial(subplot, **plot_params)\<close>, called with an axes, an image and a
  title.\<close>

definition axplot :: "ext \<Rightarrow> pyval \<Rightarrow> pyval \<Rightarrow> ndarray \<Rightarrow> string \<Rightarrow> pyval prog" where
  "axplot x rss_max ax img title =
     bind (call x ''Axes.imshow'' [ax, Arr img]
             [(''cmap'', Plain (PStr ''gray'')), (''interpolation'', Plain (PStr ''none'')),
              (''vmin'', Plain (PInt 0)), (''vmax'', rss_max)]) (\<lambda>_.
     bind (call x ''Axes.set_title'' [ax, Plain (PStr title)] []) (\<lambda>_.
       call x ''Axes.axis'' [ax, Plain (PStr ''off'')] []))"

definition compare_cell :: "ext \<Rightarrow> normalized \<Rightarrow> expectations \<Rightarrow> pyval prog" where
  "compare_cell x n es =
     bind (call x ''np.max'' [Arr (normalized_rss n)] []) (\<lambda>rss_max.
     bind (call x ''plt.subplots'' [Plain (PInt 1), Plain (PInt 4)]
             [(''figsize'', Plain (PTuple [PInt 20, PFloat (to_double 7.6)])),
              (''gridspec_kw'', width_ratios 4)]) (\<lambda>figure.
     bind (unpack2 x figure) (\<lambda>(fig, axes).
     bind (unpack4 x axes) (\<lambda>(ax1, ax2, ax3, ax4).
     bind (axplot x rss_max ax1 (normalized_zero_filled n) ''zero filled'') (\<lambda>_.
     bind (axplot x rss_max ax2 (normalized_l1_recon n) ''l1-ESPIRiT in wavelet domain'') (\<lambda>_.
     bind (lift ''[]'' (index_end (normalized_expectation_10 es))) (\<lambda>mmse.
     bind (axplot x rss_max ax3 mmse ''{x}_{MMSE}'') (\<lambda>_.
     bind (axplot x rss_max ax4 (normalized_rss n) ''truth'') (\<lambda>_.
     bind (call x ''plt.tight_layout'' [] [(''pad'', Plain (PInt 0))]) (\<lambda>_.
       ret rss_max))))))))))"

text \<open>\<open>axss[i, j]\<close> of what \<open>plt.subplots\<close> returned.\<close>

definition axes_at :: "ext \<Rightarrow> pyval \<Rightarrow> nat \<Rightarrow> nat \<Rightarrow> pyval prog" where
  "axes_at x axss i j =
     (case axss of
        Arr a \<Rightarrow> bind (lift ''[]'' (index_pair i j a)) (\<lambda>r. ret (Arr r))
      | Seq _ \<Rightarrow> lift ''[]'' (Inl TypeError)
      | Plain _ \<Rightarrow> lift ''[]'' (Inl TypeError)
      | _ \<Rightarrow> call x ''[]'' [axss, Plain (PTuple [PInt (int i), PInt (int j)])] [])"

definition grid_title :: "nat \<Rightarrow> nat \<Rightarrow> error + string" where
  "grid_title i j = (if i = 0 then py_format ''x_%d'' [PInt (int j)] else Inr '''')"

definition grid_plot :: "ext \<Rightarrow> pyval \<Rightarrow> pyval \<Rightarrow> ndarray \<Rightarrow> nat \<Rightarrow> nat \<Rightarrow> pyval prog" where
  "grid_plot x rss_max axss samples i j =
     bind (lift ''%'' (grid_title i j)) (\<lambda>strs.
     bind (axes_at x axss i j) (\<lambda>ax.
     bind (lift ''[]'' (index_pair i j samples)) (\<lambda>img.
       axplot x rss_max ax img strs)))"

fun for_each :: "('a \<Rightarrow> 'b prog) \<Rightarrow> 'a list \<Rightarrow> unit prog" where
  "for_each body [] = ret ()"
| "for_each body (i # is) = bind (body i) (\<lambda>_. for_each body is)"

definition samples_cell :: "ext \<Rightarrow> normalized \<Rightarrow> pyval \<Rightarrow> pyval prog" where
  "samples_cell x n rss_max =
     bind (lift ''[]'' (case shape (normalized_rets n) of
                          [] \<Rightarrow> Inl IndexError
                        | k # _ \<Rightarrow> slice_axis 0 0 k 35 (normalized_rets n))) (\<lambda>samples.
     bind (call x ''plt.subplots'' [Plain (PInt 10), Plain (PInt 10)]
             [(''figsize'', Plain (PTuple [PInt 15, PInt 15])),
              (''gridspec_kw'', width_ratios 10)]) (\<lambda>figure.
     bind (unpack2 x figure) (\<lambda>(fig, axss).
     bind (for_each (\<lambda>i. for_each (grid_plot x rss_max axss samples i) [0..<10]) [0..<10]) (\<lambda>_.
       call x ''plt.tight_layout'' [] [(''pad'', Plain (PInt 0))]))))"

subsection \<open>The notebook\<close>

text \<open>The cell that puts the toolbox on the search path, and the imports.\<close>

definition environ :: "ext \<Rightarrow> string \<Rightarrow> pyval prog" where
  "environ x name = call x ''os.environ.__getitem__'' [Plain (PStr name)] []"

definition path_cell :: "ext \<Rightarrow> pyval prog" where
  "path_cell x =
     bind (import_module x ''os'' []) (\<lambda>_.
     bind (environ x ''TOOLBOX_PATH'') (\<lambda>toolbox.
     bind (binary x ''+'' py_add toolbox (Plain (PStr '':''))) (\<lambda>prefix.
     bind (environ x ''PATH'') (\<lambda>path.
     bind (binary x ''+'' py_add prefix path) (\<lambda>joined.
       call x ''os.environ.__setitem__'' [Plain (PStr ''PATH''), joined] [])))))"

definition imports_cell :: "ext \<Rightarrow> pyval prog" where
  "imports_cell x =
     bind (import_module x ''spreco.common'' [''ops'', ''sampling_pattern'', ''utils'']) (\<lambda>_.
     bind (import_module x ''spreco.model.sde'' [''sde'', ''posterior_sampler'']) (\<lambda>_.
     bind (import_module x ''os'' []) (\<lambda>_.
     bind (import_module x ''numpy'' []) (\<lambda>_.
     bind (import_module x ''tensorflow.compat.v1'' []) (\<lambda>_.
     bind (call x ''tf.disable_eager_execution'' [] []) (\<lambda>_.
       import_module x ''functools'' [''partial'']))))))"

text \<open>The code cells of the notebook in order. The cells before the first one here are
  shell commands.\<close>

definition recon_notebook :: "ext \<Rightarrow> pyval prog" where
  "recon_notebook x =
     bind (path_cell x) (\<lambda>_.
     bind (imports_cell x) (\<lambda>_.
     bind (simulate x) (\<lambda>(config, model_config, simu).
     bind (after_prepare x simu) (\<lambda>p.
     bind (sampler_cell x config model_config p) (\<lambda>images.
     bind (normalize_cell x p images) (\<lambda>n.
     bind (metrics_cell x n) (\<lambda>(es, psnrs, ssims).
     bind (curves_cell x psnrs ssims) (\<lambda>_.
     bind (compare_cell x n es) (\<lambda>rss_max.
       samples_cell x n rss_max)))))))))"

section \<open>The training notebook\<close>

datatype func = Npz_loader | Squeeze | Normalize | Slice_image | Randint

definition train_config_path :: string where
  "train_config_path = ''/content/spreco/scripts/train_config.yaml''"

subsection \<open>The functions of the data pipe\<close>

definition npz_loader :: "ext \<Rightarrow> pyval \<Rightarrow> pyval prog" where
  "npz_loader x v = call x ''utils.npz_loader'' [v, Plain (PStr ''rss'')] []"

text \<open>\<open>np.squeeze\<close> of an array; what it makes of any other value is numpy's business.\<close>

definition squeeze :: "ext \<Rightarrow> pyval \<Rightarrow> pyval prog" where
  "squeeze x v = (case v of Arr a \<Rightarrow> ret (Arr (np_squeeze a)) | _ \<Rightarrow> call x ''np.squeeze'' [v] [])"

definition normalize :: "ext \<Rightarrow> pyval \<Rightarrow> pyval prog" where
  "normalize x v = call x ''utils.normalize_with_max'' [v] []"

definition slice_image :: "ext \<Rightarrow> pyval \<Rightarrow> pyval prog" where
  "slice_image x v = call x ''utils.slice_image'' [v, Plain (PList [PInt 256, PInt 256, PInt 2])] []"

definition randint :: "ext \<Rightarrow> pyval \<Rightarrow> pyval \<Rightarrow> string \<Rightarrow> pyval prog" where
  "randint x config v dtype =
     bind (lift ''[]'' (subscript config ''nr_levels'')) (\<lambda>nr_levels.
       call x ''np.random.randint'' [Plain (PInt 0), Plain nr_levels, Plain (PInt 1)]
         [(''dtype'', Plain (PStr dtype))])"

fun apply_func :: "ext \<Rightarrow> pyval \<Rightarrow> func \<Rightarrow> pyval \<Rightarrow> pyval prog" where
  "apply_func x config Npz_loader v = npz_loader x v"
| "apply_func x config Squeeze v = squeeze x v"
| "apply_func x config Normalize v = normalize x v"
| "apply_func x config Slice_image v = slice_image x v"
| "apply_func x config Randint v = randint x config v ''int32''"

text \<open>Calling the functions of one part one after the other, each on the result of the
  one before, as a pipe does with its file name.\<close>

fun apply_part :: "ext \<Rightarrow> pyval \<Rightarrow> func list \<Rightarrow> pyval \<Rightarrow> pyval prog" where
  "apply_part x config [] v = ret v"
| "apply_part x config (f # fs) v = bind (apply_func x config f v) (apply_part x config fs)"

definition func_name :: "func \<Rightarrow> string" where
  "func_name f =
     (case f of Npz_loader \<Rightarrow> ''npz_loader'' | Squeeze \<Rightarrow> ''squeeze'' | Normalize \<Rightarrow> ''normalize''
      | Slice_image \<Rightarrow> ''slice_image'' | Randint \<Rightarrow> ''randint'')"

definition parts :: "func list list" where
  "parts = [[Npz_loader, Squeeze, Normalize, Slice_image], [Randint]]"

definition parts_funcs :: pyval where
  "parts_funcs = Seq (map (\<lambda>part. Seq (map (\<lambda>f. Func (func_name f)) part)) parts)"

subsection \<open>The script\<close>

definition batch_size :: "pyval \<Rightarrow> pyobj prog" where
  "batch_size config =
     bind (lift ''[]'' (subscript config ''batch_size'')) (\<lambda>b.
     bind (lift ''[]'' (subscript config ''nr_gpu'')) (\<lambda>g.
       lift ''*'' (py_mul b g)))"

definition shape_info :: "pyval \<Rightarrow> pyobj prog" where
  "shape_info config =
     bind (lift ''[]'' (subscript config ''input_shape'')) (\<lambda>input_shape.
       ret (PList [input_shape, PList [PInt 1]]))"

definition pipe_names :: pyval where
  "pipe_names = Plain (PList [PStr ''inputs'', PStr ''h''])"

definition find_files :: "ext \<Rightarrow> pyval \<Rightarrow> string \<Rightarrow> pyval prog" where
  "find_files x config key =
     bind (lift ''[]'' (subscript config key)) (\<lambda>path.
     bind (lift ''[]'' (subscript config ''pattern'')) (\<lambda>pattern.
       call x ''utils.find_files'' [Plain path, Plain pattern] []))"

definition train_pipe :: "ext \<Rightarrow> pyval \<Rightarrow> pyval \<Rightarrow> pyval prog" where
  "train_pipe x config train_files =
     bind (batch_size config) (\<lambda>b.
     bind (shape_info config) (\<lambda>sh.
       call x ''pipe.create_pipe'' [parts_funcs]
         [(''files'', train_files), (''batch_size'', Plain b), (''shape_info'', Plain sh),
          (''names'', pipe_names)]))"

definition test_pipe :: "ext \<Rightarrow> pyval \<Rightarrow> pyval \<Rightarrow> pyval prog" where
  "test_pipe x config test_files =
     bind (batch_size config) (\<lambda>b.
     bind (shape_info config) (\<lambda>sh.
       call x ''pipe.create_pipe'' [parts_funcs, test_files]
         [(''batch_size'', Plain b), (''shape_info'', Plain sh), (''names'', pipe_names)]))"

definition log_path :: "ext \<Rightarrow> pyval \<Rightarrow> string \<Rightarrow> pyval prog" where
  "log_path x go name =
     bind (call x ''trainer.log_path'' [go] []) (\<lambda>folder.
       lift ''os.path.join'' (os_path_join folder (Plain (PStr name))))"

definition log_marker :: "ext \<Rightarrow> pyval \<Rightarrow> string \<Rightarrow> pyval prog" where
  "log_marker x go message =
     bind (log_path x go ''config.yaml'') (\<lambda>path.
     bind (call x ''utils.get_timestamp'' [] []) (\<lambda>stamp.
       call x ''utils.log_to'' [path, Seq [stamp, Plain (PStr message)]] [(''prefix'', Plain (PStr ''#''))]))"

definition train_body :: "ext \<Rightarrow> pyval \<Rightarrow> unit prog" where
  "train_body x config =
     bind (find_files x config ''train_data_path'') (\<lambda>train_files.
     bind (find_files x config ''test_data_path'') (\<lambda>test_files.
     bind (import_module x ''numpy'' []) (\<lambda>_.
     bind (train_pipe x config train_files) (\<lambda>train_pipe.
     bind (test_pipe x config test_files) (\<lambda>test_pipe.
     bind (call x ''trainer'' [train_pipe, test_pipe, config] []) (\<lambda>go.
     bind (log_path x go ''training files'') (\<lambda>files_log.
     bind (call x ''utils.log_to'' [files_log, train_files] [(''prefix'', Plain (PStr ''#''))]) (\<lambda>_.
     bind (log_marker x go ''The training is starting'') (\<lambda>_.
     bind (call x ''trainer.train'' [go] []) (\<lambda>_.
     bind (log_marker x go ''The training is ending'') (\<lambda>_.
     bind (call x ''utils.color_print'' [Plain (PStr ''TRAINING FINISHED'')] []) (\<lambda>_.
       ret ()))))))))))))"

definition train_imports :: "ext \<Rightarrow> pyval prog" where
  "train_imports x =
     bind (import_module x ''spreco.common'' [''utils'', ''pipe'']) (\<lambda>_.
     bind (import_module x ''spreco.workbench.trainer'' [''trainer'']) (\<lambda>_.
       import_module x ''os'' []))"

definition train_script :: "ext \<Rightarrow> unit prog" where
  "train_script x =
     bind (train_imports x) (\<lambda>_.
     bind (call x ''utils.load_config'' [Plain (PStr train_config_path)] []) (train_body x))"

section \<open>Events of interest\<close>

definition ecalib_call :: "ndarray \<Rightarrow> ndarray \<Rightarrow> event" where
  "ecalib_call kspace maps =
     Call ''utils.bart'' [Plain (PInt 1), Plain (PStr ecalib), Arr (newaxis_front kspace)] [] (Inr (Arr maps))"

text \<open>The command line of a toolbox call, and the commands of a trace in order.\<close>

definition bart_command :: "event \<Rightarrow> string option" where
  "bart_command ev =
     (if fname ev = ''utils.bart''
      then (case args ev of _ # Plain (PStr cmd) # _ \<Rightarrow> Some cmd | _ \<Rightarrow> None)
      else None)"

definition toolbox_commands :: "event list \<Rightarrow> string list" where
  "toolbox_commands evs = List.map_filter bart_command evs"

definition calls_of :: "string \<Rightarrow> event list \<Rightarrow> event list" where
  "calls_of f evs = filter (\<lambda>ev. fname ev = f) evs"

text \<open>How \<open>prepare_simu\<close> came by its mask: the events of that step and the mask.\<close>

definition mask_step :: "pyval \<Rightarrow> ndarray option \<Rightarrow> nat \<Rightarrow> nat \<Rightarrow> ndarray \<Rightarrow> event list \<Rightarrow> bool" where
  "mask_step config mask0 nx ny msk evs =
     (case mask0 of
        Some m \<Rightarrow> msk = m \<and> evs = []
      | None \<Rightarrow>
          (\<exists>p. subscript config ''poisson'' = Inr p \<and>
             ((truthy p \<and>
               (\<exists>fx fy cal cmd raw.
                  subscript config ''fx'' = Inr fx \<and> subscript config ''fy'' = Inr fy \<and>
                  subscript config ''cal'' = Inr cal \<and>
                  py_format poisson_template [PInt (int nx), PInt (int ny), fx, fy, cal] = Inr cmd \<and>
                  evs = [Call ''utils.bart'' [Plain (PInt 1), Plain (PStr cmd)] [] (Inr (Arr raw))] \<and>
                  msk = np_squeeze raw)) \<or>
              (\<not> truthy p \<and>
               (\<exists>cal rate.
                  subscript config ''cal'' = Inr cal \<and> subscript config ''sampling_rate'' = Inr rate \<and>
                  evs = [Call ''sampling_pattern.gen_mask_2D''
                           [Plain (PInt (int nx)), Plain (PInt (int ny))]
                           [(''center_r'', Plain cal), (''undersampling'', Plain rate)]
                           (Inr (Arr msk))])))))"

section \<open>Evaluating the formatting operator\<close>

lemma digits_numeral:
  "digits (numeral k) =
     (if (numeral k :: nat) < 10 then [''0123456789'' ! numeral k]
      else digits (numeral k div 10) @ [''0123456789'' ! (numeral k mod 10)])"
  by (subst digits.simps) simp

lemma digits_0: "digits 0 = ''0''"
  by (subst digits.simps) simp

lemma digits_1: "digits (Suc 0) = ''1''"
  by (subst digits.simps) simp

lemmas format_simps =
  digits_numeral digits_0 digits_1 fmt_d_def fmt_f_def fmt_int_def fmt_float_def
  round_half_even_def poisson_template_def as_float_def

section \<open>Running programs\<close>

lemma bind_InrE:
  assumes "bind m f s = (Inr v, s')"
  obtains u t where "m s = (Inr u, t)" and "f u t = (Inr v, s')"
  using assms by (auto simp: bind_def split: prod.splits sum.splits)

lemma lift_InrE:
  assumes "lift op r s = (Inr v, s')"
  obtains "r = Inr v" and "s' = s"
  using assms by (auto simp: lift_def split: sum.splits)

lemma ret_InrE:
  assumes "ret u s = (Inr v, s')"
  obtains "u = v" and "s' = s"
  using assms by (auto simp: ret_def)

lemma call_InrE:
  assumes "call x f as kw s = (Inr v, s')"
  obtains w where "lib x f as kw (outside s) = (Inr v, w)"
    and "s' = \<lparr>outside = w, trace = trace s @ [Call f as kw (Inr v)]\<rparr>"
  using assms by (auto simp: call_def split: prod.splits)

lemma call_arr_InrE:
  assumes "call_arr x f as kw s = (Inr v, s')"
  obtains w where "lib_arr x f as kw (outside s) = (Inr v, w)"
    and "s' = \<lparr>outside = w, trace = trace s @ [Call f as kw (Inr (Arr v))]\<rparr>"
  using assms by (auto simp: call_arr_def split: prod.splits)

lemma bind_lift_Inr: "bind (lift op (Inr v)) f = f v"
  by (rule ext) (simp add: bind_def lift_def)

lemma bind_lift_Inl: "bind (lift op (Inl e)) f = lift op (Inl e)"
  by (rule ext) (simp add: bind_def lift_def)

lemma bind_ret: "bind (ret v) f = f v"
  by (rule ext) (simp add: bind_def ret_def)

lemma bind_call:
  "bind (call x f as kw) k s =
     (case lib x f as kw (outside s) of
        (Inl e, w) \<Rightarrow> (Inl e, \<lparr>outside = w, trace = trace s @ [Call f as kw (Inl e)]\<rparr>)
      | (Inr v, w) \<Rightarrow> k v \<lparr>outside = w, trace = trace s @ [Call f as kw (Inr v)]\<rparr>)"
  by (simp add: bind_def call_def split: prod.splits sum.splits)

lemma bind_call_arr:
  "bind (call_arr x f as kw) k s =
     (case lib_arr x f as kw (outside s) of
        (Inl e, w) \<Rightarrow> (Inl e, \<lparr>outside = w, trace = trace s @ [Call f as kw (Inl e)]\<rparr>)
      | (Inr v, w) \<Rightarrow> k v \<lparr>outside = w, trace = trace s @ [Call f as kw (Inr (Arr v))]\<rparr>)"
  by (simp add: bind_def call_arr_def split: prod.splits sum.splits)

lemma bind_assoc: "bind (bind m f) g = bind m (\<lambda>v. bind (f v) g)"
  by (rule ext) (simp add: bind_def split: prod.splits sum.splits)

lemma ret_apply: "ret v s = (Inr v, s)"
  by (simp add: ret_def)

lemma lift_apply:
  "lift op r s =
     (case r of
        Inr v \<Rightarrow> (Inr v, s)
      | Inl e \<Rightarrow> (Inl e, \<lparr>outside = outside s, trace = trace s @ [Fault op e]\<rparr>))"
  by (simp add: lift_def)

lemma call_apply:
  "call x f as kw s =
     (case lib x f as kw (outside s) of
        (r, w) \<Rightarrow> (r, \<lparr>outside = w, trace = trace s @ [Call f as kw r]\<rparr>))"
  by (simp add: call_def)

lemma call_arr_apply:
  "call_arr x f as kw s =
     (case lib_arr x f as kw (outside s) of
        (r, w) \<Rightarrow> (r, \<lparr>outside = w, trace = trace s @ [Call f as kw (map_sum id Arr r)]\<rparr>))"
  by (simp add: call_arr_def)

text \<open>Running a program on a concrete library takes two passes of the simplifier: the
  first runs the binds, the second what is left in tail position.\<close>

lemmas run_simps = bind_lift_Inr bind_lift_Inl bind_ret bind_call bind_call_arr bind_assoc

lemmas tail_simps = ret_apply lift_apply call_apply call_arr_apply

section \<open>Facts about arrays\<close>

lemma length_indices: "length (indices sh) = prod_list sh"
proof (induction sh)
  case Nil
  show ?case by simp
next
  case (Cons n sh)
  have "length (indices (n # sh)) = sum_list (map (\<lambda>i. prod_list sh) [0..<n])"
    by (simp add: length_concat comp_def Cons.IH)
  also have "\<dots> = n * prod_list sh"
    by (simp add: sum_list_triv)
  finally show ?case by simp
qed

lemma nth_concat_uniform:
  "\<forall>xs \<in> set xss. length xs = m \<Longrightarrow> i < length xss \<Longrightarrow> j < m \<Longrightarrow>
   concat xss ! (i * m + j) = xss ! i ! j"
proof (induction xss arbitrary: i)
  case Nil
  then show ?case by simp
next
  case (Cons xs xss)
  show ?case
  proof (cases i)
    case 0
    with Cons.prems show ?thesis by (simp add: nth_append)
  next
    case (Suc k)
    with Cons.prems have "concat xss ! (k * m + j) = xss ! k ! j"
      by (intro Cons.IH) auto
    moreover have "length xs = m"
      using Cons.prems by simp
    ultimately show ?thesis
      using Suc by (simp add: nth_append)
  qed
qed

lemma offset_less: "in_bounds sh idx \<Longrightarrow> offset sh idx < prod_list sh"
proof (induction sh idx rule: in_bounds.induct)
  case 1
  show ?case by simp
next
  case (2 n sh i idx)
  then have a: "i < n" and b: "offset sh idx < prod_list sh"
    by simp_all
  have "i * prod_list sh + offset sh idx < i * prod_list sh + prod_list sh"
    using b by simp
  also have "\<dots> = Suc i * prod_list sh"
    by simp
  also have "\<dots> \<le> n * prod_list sh"
    using a by (intro mult_le_mono1) simp
  finally show ?case by simp
qed simp_all

lemma nth_indices: "in_bounds sh idx \<Longrightarrow> indices sh ! offset sh idx = idx"
proof (induction sh idx rule: in_bounds.induct)
  case 1
  show ?case by simp
next
  case (2 n sh i idx)
  then have a: "i < n" and b: "in_bounds sh idx" and ih: "indices sh ! offset sh idx = idx"
    by simp_all
  let ?xss = "map (\<lambda>i. map ((#) i) (indices sh)) [0..<n]"
  have "concat ?xss ! (i * prod_list sh + offset sh idx) = ?xss ! i ! offset sh idx"
    using a offset_less[OF b] by (intro nth_concat_uniform) (auto simp: length_indices)
  also have "\<dots> = i # idx"
    using a offset_less[OF b] ih by (simp add: length_indices)
  finally show ?case by simp
qed simp_all

lemma nth_map_indices:
  "in_bounds sh idx \<Longrightarrow> map f (indices sh) ! offset sh idx = f idx"
  using offset_less[of sh idx] nth_indices[of sh idx] by (simp add: length_indices)

lemma bindex_in_bounds: "in_bounds sh idx \<Longrightarrow> bindex sh idx = idx"
  by (induction sh idx rule: in_bounds.induct) auto

lemma np_squeeze_idem: "np_squeeze (np_squeeze a) = np_squeeze a"
  by (simp add: np_squeeze_def)

lemma undersample_eq:
  assumes k: "shape kspace = [nx, ny, nc]" and m: "shape m = [nx, ny]"
  shows "undersample kspace m =
     Inr \<lparr>shape = [nx, ny, nc],
          data = map (\<lambda>idx. bitem kspace idx * bitem (np_abs (newaxis_back m)) idx)
                   (indices [nx, ny, nc])\<rparr>"
proof -
  have "broadcast_shape (shape kspace) (shape (np_abs (newaxis_back m))) = Some [nx, ny, nc]"
    using k m by (simp add: broadcast_shape_def pad_def bdim_def np_abs_def newaxis_back_def)
  then show ?thesis
    by (simp add: undersample_def np_multiply_def np_binop_def)
qed

lemma undersample_item:
  assumes k: "shape kspace = [nx, ny, nc]" and m: "shape m = [nx, ny]" and wf: "well_shaped m"
    and u: "undersample kspace m = Inr und"
    and i: "i < nx" and j: "j < ny" and c: "c < nc"
  shows "item und [i, j, c] = item kspace [i, j, c] * of_real (cmod (item m [i, j]))"
proof -
  let ?m' = "np_abs (newaxis_back m)"
  have und: "und = \<lparr>shape = [nx, ny, nc],
      data = map (\<lambda>idx. bitem kspace idx * bitem ?m' idx) (indices [nx, ny, nc])\<rparr>"
    using u undersample_eq[OF k m] by simp
  have ib: "in_bounds [nx, ny, nc] [i, j, c]"
    using i j c by simp
  have "item und [i, j, c] = bitem kspace [i, j, c] * bitem ?m' [i, j, c]"
    unfolding item_def und using nth_map_indices[OF ib] by simp
  moreover have "bitem kspace [i, j, c] = item kspace [i, j, c]"
    using k bindex_in_bounds[OF ib] by (simp add: bitem_def item_def pad_def)
  moreover have "bitem ?m' [i, j, c] = of_real (cmod (item m [i, j]))"
  proof -
    have lt: "i * ny + j < length (data m)"
    proof -
      have "offset [nx, ny] [i, j] < prod_list [nx, ny]"
        using i j by (intro offset_less) simp
      then show ?thesis
        using wf m by (simp add: well_shaped_def)
    qed
    have "bitem ?m' [i, j, c] = data ?m' ! (i * ny + j)"
      using m i j by (auto simp: bitem_def pad_def np_abs_def newaxis_back_def)
    also have "\<dots> = of_real (cmod (data m ! (i * ny + j)))"
      using lt by (simp add: np_abs_def newaxis_back_def)
    finally show ?thesis
      using m by (simp add: item_def)
  qed
  ultimately show ?thesis by simp
qed

lemma item_in_data:
  assumes "shape m = [nx, ny]" and "well_shaped m" and "i < nx" and "j < ny"
  shows "item m [i, j] \<in> set (data m)"
proof -
  have "offset [nx, ny] [i, j] < prod_list [nx, ny]"
    using assms by (intro offset_less) simp
  then show ?thesis
    using assms by (simp add: item_def well_shaped_def)
qed

section \<open>What a returning \<open>prepare_simu\<close> did\<close>

lemma unpack3_Inr: "unpack3 sh = Inr (a, b, c) \<longleftrightarrow> sh = [a, b, c]"
  by (auto simp: unpack3_def split: list.splits)

lemma gen_mask_returns:
  assumes "gen_mask x config nx ny s = (Inr m, s')"
  shows "\<exists>evs. trace s' = trace s @ evs \<and> mask_step config None nx ny m evs"
  using assms unfolding gen_mask_def mask_step_def
  by (auto elim!: bind_InrE lift_InrE ret_InrE call_arr_InrE split: if_splits)

definition ecalib_args :: "ndarray \<Rightarrow> pyval list" where
  "ecalib_args kspace = [Plain (PInt 1), Plain (PStr ecalib), Arr (newaxis_front kspace)]"

definition first_calls :: "pyobj \<Rightarrow> pyval \<Rightarrow> ndarray \<Rightarrow> ndarray \<Rightarrow> ndarray \<Rightarrow> nat \<Rightarrow> nat \<Rightarrow> event list" where
  "first_calls ksp_path npz loaded maps std nx ny =
     [Call ''np.load'' [Plain ksp_path] [] (Inr npz),
      Call ''NpzFile.__getitem__'' [npz, Plain (PStr ''kspace'')] [] (Inr (Arr loaded)),
      ecalib_call (np_squeeze loaded) maps,
      Call ''ops.mifft2'' [Arr (np_squeeze loaded), Plain (PList [PInt (int nx), PInt (int ny)])] []
        (Inr (Arr std))]"

definition last_calls :: "ndarray \<Rightarrow> ndarray \<Rightarrow> ndarray \<Rightarrow> ndarray \<Rightarrow> ndarray \<Rightarrow> ndarray \<Rightarrow> nat \<Rightarrow> nat \<Rightarrow> event list" where
  "last_calls loaded maps und coils msk x_zf nx ny =
     [ecalib_call (np_squeeze loaded) maps,
      Call ''ops.AT_cart'' [Arr und, Arr coils, Arr msk, Plain (PList [PInt (int nx), PInt (int ny)])] []
        (Inr (Arr x_zf))]"

lemma prepare_simu_steps:
  assumes "prepare_simu x config mask0 s = (Inr (x_zf, msk, coils, (nx, ny), rs, und), s')"
  shows "\<exists>ksp_path npz loaded nc maps std weighted maps' wa wb w1 s2 w2 w3.
     subscript config ''ksp_path'' = Inr ksp_path \<and>
     shape (np_squeeze loaded) = [nx, ny, nc] \<and>
     lib_arr x ''utils.bart'' (ecalib_args (np_squeeze loaded)) [] wa = (Inr maps, wb) \<and>
     np_multiply std (np_squeeze (np_conj (np_squeeze maps))) = Inr weighted \<and>
     np_sum 2 weighted = Inr rs \<and>
     (case mask0 of None \<Rightarrow> gen_mask x config nx ny | Some m \<Rightarrow> ret m)
        \<lparr>outside = w1, trace = trace s @ first_calls ksp_path npz loaded maps std nx ny\<rparr>
       = (Inr msk, s2) \<and>
     undersample (np_squeeze loaded) msk = Inr und \<and>
     lib_arr x ''utils.bart'' (ecalib_args (np_squeeze loaded)) [] (outside s2) = (Inr maps', w2) \<and>
     s' = \<lparr>outside = w3, trace = trace s2 @ last_calls loaded maps' und coils msk x_zf nx ny\<rparr> \<and>
     coils = np_squeeze (np_squeeze maps')"
  using assms unfolding prepare_simu_def Let_def ecalib_call_def ecalib_args_def first_calls_def last_calls_def
  apply (clarsimp simp: unpack3_Inr elim!: bind_InrE lift_InrE call_arr_InrE call_InrE ret_InrE split: prod.splits)
  apply (intro exI conjI; (assumption | rule refl))
  done

lemma prepare_simu_calls:
  assumes "prepare_simu x config mask0 s = (Inr (x_zf, msk, coils, (nx, ny), rs, und), s')"
  shows "\<exists>ksp_path npz loaded nc maps std weighted maps' evs wa wb wc wd.
     shape (np_squeeze loaded) = [nx, ny, nc] \<and>
     lib_arr x ''utils.bart'' (ecalib_args (np_squeeze loaded)) [] wa = (Inr maps, wb) \<and>
     lib_arr x ''utils.bart'' (ecalib_args (np_squeeze loaded)) [] wc = (Inr maps', wd) \<and>
     np_multiply std (np_squeeze (np_conj (np_squeeze maps))) = Inr weighted \<and>
     np_sum 2 weighted = Inr rs \<and>
     undersample (np_squeeze loaded) msk = Inr und \<and>
     coils = np_squeeze (np_squeeze maps') \<and>
     mask_step config mask0 nx ny msk evs \<and>
     trace s' = trace s @ first_calls ksp_path npz loaded maps std nx ny @ evs @
                last_calls loaded maps' und coils msk x_zf nx ny"
proof -
  from prepare_simu_steps[OF assms] obtain ksp_path npz loaded nc maps std weighted maps' wa wb w1 s2 w2 w3
    where "subscript config ''ksp_path'' = Inr ksp_path"
      and sh: "shape (np_squeeze loaded) = [nx, ny, nc]"
      and b1: "lib_arr x ''utils.bart'' (ecalib_args (np_squeeze loaded)) [] wa = (Inr maps, wb)"
      and mu: "np_multiply std (np_squeeze (np_conj (np_squeeze maps))) = Inr weighted"
      and su: "np_sum 2 weighted = Inr rs"
      and ms: "(case mask0 of None \<Rightarrow> gen_mask x config nx ny | Some m \<Rightarrow> ret m)
        \<lparr>outside = w1, trace = trace s @ first_calls ksp_path npz loaded maps std nx ny\<rparr>
       = (Inr msk, s2)"
      and un: "undersample (np_squeeze loaded) msk = Inr und"
      and b2: "lib_arr x ''utils.bart'' (ecalib_args (np_squeeze loaded)) [] (outside s2) = (Inr maps', w2)"
      and s': "s' = \<lparr>outside = w3, trace = trace s2 @ last_calls loaded maps' und coils msk x_zf nx ny\<rparr>"
      and co: "coils = np_squeeze (np_squeeze maps')"
    by (elim exE conjE) (rule that)
  let ?s1 = "\<lparr>outside = w1, trace = trace s @ first_calls ksp_path npz loaded maps std nx ny\<rparr>"
  have "\<exists>evs. mask_step config mask0 nx ny msk evs \<and> trace s2 = trace ?s1 @ evs"
  proof (cases mask0)
    case None
    with ms have "gen_mask x config nx ny ?s1 = (Inr msk, s2)"
      by simp
    from gen_mask_returns[OF this] None show ?thesis
      by (elim exE conjE) (intro exI conjI, simp_all)
  next
    case (Some m)
    with ms have "ret m ?s1 = (Inr msk, s2)"
      by simp
    then have "msk = m" and "s2 = ?s1"
      by (auto elim: ret_InrE)
    with Some show ?thesis
      by (simp add: mask_step_def)
  qed
  then obtain evs where me: "mask_step config mask0 nx ny msk evs"
    and t2: "trace s2 = trace ?s1 @ evs"
    by (elim exE conjE)
  have tr: "trace s' = trace s @ first_calls ksp_path npz loaded maps std nx ny @ evs @
                last_calls loaded maps' und coils msk x_zf nx ny"
    using s' t2 by simp
  show ?thesis
    apply (rule exI[of _ ksp_path], rule exI[of _ npz], rule exI[of _ loaded], rule exI[of _ nc])
    apply (rule exI[of _ maps], rule exI[of _ std], rule exI[of _ weighted], rule exI[of _ maps'])
    apply (rule exI[of _ evs], rule exI[of _ wa], rule exI[of _ wb], rule exI[of _ "outside s2"])
    apply (rule exI[of _ w2])
    apply (intro conjI)
    apply (fact sh b1 b2 mu su un co me tr)+
    done
qed


section \<open>An example library and its runs\<close>


definition example_kspace :: ndarray where
  "example_kspace = \<lparr>shape = [2, 2, 2], data = [1, 2, 3, 4, 5, 6, 7, 8]\<rparr>"

definition example_mask :: ndarray where
  "example_mask = \<lparr>shape = [2, 2], data = [1, 0, 0, 1]\<rparr>"

definition other_mask :: ndarray where
  "other_mask = \<lparr>shape = [2, 2], data = [0, 1, 1, 0]\<rparr>"

text \<open>The generator state after \<open>np.random.seed\<close>: an integer seed fixes it, any other
  argument takes it from the environment.\<close>

definition seed_of :: "pyval list \<Rightarrow> world \<Rightarrow> nat" where
  "seed_of as w = (case as of [Plain (PInt i)] \<Rightarrow> nat i | _ \<Rightarrow> rng w + env w)"

definition example_config :: "bool \<Rightarrow> pyval" where
  "example_config poisson = Plain (PDict
     [(''ksp_path'', PStr ''k.npz''), (''poisson'', PBool poisson), (''fx'', PFloat (Finite 1.5)),
      (''fy'', PFloat (Finite 1.5)), (''cal'', PInt 20), (''sampling_rate'', PFloat (Finite 0.25)),
      (''model_folder'', PStr ''m''), (''model_name'', PStr ''n'')])"

definition example_model_config :: pyval where
  "example_model_config = Plain (PDict [(''seed'', PInt 1234), (''input_shape'', PList [PInt 256, PInt 256, PInt 2])])"

definition example_lib :: "bool \<Rightarrow> ext" where
  "example_lib poisson =
     \<lparr>lib = (\<lambda>f as kw w.
        if f = ''np.random.seed'' then (Inr (Plain PNone), w\<lparr>rng := seed_of as w\<rparr>)
        else if f = ''utils.load_config'' then
          (Inr (if as = [Plain (PStr recon_config_path)] then example_config poisson else example_model_config), w)
        else (Inr (Obj 0), w)),
      lib_arr = (\<lambda>f as kw w.
        if f = ''sampling_pattern.gen_mask_2D''
        then (Inr (if even (rng w) then example_mask else other_mask), w\<lparr>rng := Suc (rng w)\<rparr>)
        else if f = ''utils.bart'' \<and> as \<noteq> ecalib_args example_kspace
        then (Inr example_mask, w)
        else (Inr example_kspace, w))\<rparr>"

definition start :: "nat \<Rightarrow> state" where
  "start r = \<lparr>outside = \<lparr>rng = r, env = 0\<rparr>, trace = []\<rparr>"

definition example_und :: ndarray where
  "example_und = \<lparr>shape = [2, 2, 2], data = [1, 2, 0, 0, 0, 0, 7, 8]\<rparr>"

definition example_rss :: ndarray where
  "example_rss = \<lparr>shape = [2, 2], data = [5, 25, 61, 113]\<rparr>"

lemma upt_2: "[0..<2] = [0, 1]"
  by (simp add: upt_rec)

lemma example_squeeze: "np_squeeze example_kspace = example_kspace"
  by (simp add: np_squeeze_def example_kspace_def)

lemma example_mask_squeeze: "np_squeeze example_mask = example_mask"
  by (simp add: np_squeeze_def example_mask_def)

lemma example_undersample: "undersample example_kspace example_mask = Inr example_und"
  by (simp add: undersample_def np_multiply_def np_binop_def broadcast_shape_def pad_def bdim_def
      np_abs_def newaxis_back_def example_kspace_def example_mask_def example_und_def bitem_def upt_2)

lemma example_weighted:
  "np_multiply example_kspace (np_squeeze (np_conj example_kspace)) =
     Inr \<lparr>shape = [2, 2, 2], data = [1, 4, 9, 16, 25, 36, 49, 64]\<rparr>"
  by (simp add: np_multiply_def np_binop_def broadcast_shape_def pad_def bdim_def
      np_conj_def np_squeeze_def example_kspace_def bitem_def upt_2)

lemma example_sum:
  "np_sum 2 \<lparr>shape = [2, 2, 2], data = [1, 4, 9, 16, 25, 36, 49, 64]\<rparr> = Inr example_rss"
  by (simp add: np_sum_def drop_axis_def along_def item_def upt_2 example_rss_def)

definition gauss_trace :: "event list" where
  "gauss_trace =
     [Call ''np.load'' [Plain (PStr ''k.npz'')] [] (Inr (Obj 0)),
      Call ''NpzFile.__getitem__'' [Obj 0, Plain (PStr ''kspace'')] [] (Inr (Arr example_kspace)),
      ecalib_call example_kspace example_kspace,
      Call ''ops.mifft2'' [Arr example_kspace, Plain (PList [PInt 2, PInt 2])] [] (Inr (Arr example_kspace)),
      Call ''sampling_pattern.gen_mask_2D'' [Plain (PInt 2), Plain (PInt 2)]
        [(''center_r'', Plain (PInt 20)), (''undersampling'', Plain (PFloat (Finite 0.25)))] (Inr (Arr example_mask)),
      ecalib_call example_kspace example_kspace,
      Call ''ops.AT_cart'' [Arr example_und, Arr example_kspace, Arr example_mask, Plain (PList [PInt 2, PInt 2])] []
        (Inr (Arr example_kspace))]"

lemma example_shape: "shape example_kspace = [2, 2, 2]"
  by (simp add: example_kspace_def)

lemma example_lib_call:
  "lib (example_lib p) f as kw w =
     (if f = ''np.random.seed'' then (Inr (Plain PNone), w\<lparr>rng := seed_of as w\<rparr>)
      else if f = ''utils.load_config'' then
        (Inr (if as = [Plain (PStr recon_config_path)] then example_config p else example_model_config), w)
      else (Inr (Obj 0), w))"
  by (simp add: example_lib_def)

lemma example_lib_arr:
  "lib_arr (example_lib p) f as kw w =
     (if f = ''sampling_pattern.gen_mask_2D''
      then (Inr (if even (rng w) then example_mask else other_mask), w\<lparr>rng := Suc (rng w)\<rparr>)
      else if f = ''utils.bart'' \<and> as \<noteq> ecalib_args example_kspace
      then (Inr example_mask, w)
      else (Inr example_kspace, w))"
  by (simp add: example_lib_def)

lemmas example_simps =
  example_lib_call example_lib_arr example_config_def start_def subscript_def example_squeeze
  example_shape unpack3_def ecalib_call_def ecalib_args_def example_weighted example_sum
  example_undersample

lemma gauss_run:
  "prepare_simu (example_lib False) (example_config False) None (start 0) =
     (Inr (example_kspace, example_mask, example_kspace, (2, 2), example_rss, example_und),
      \<lparr>outside = \<lparr>rng = 1, env = 0\<rparr>, trace = gauss_trace\<rparr>)"
  by (simp add: prepare_simu_def gen_mask_def run_simps Let_def example_simps)
    (simp add: tail_simps gauss_trace_def ecalib_call_def ecalib_args_def)


lemma example_format:
  "py_format poisson_template [PInt 2, PInt 2, PFloat (Finite (3 / 2)), PFloat (Finite (3 / 2)), PInt 20] =
     Inr ''poisson -Y 2 -Z 2 -y 1.500000 -z 1.500000 -s 1234 -v -C 20''"
  by (simp add: format_simps)

definition poisson_trace :: "event list" where
  "poisson_trace =
     [Call ''np.load'' [Plain (PStr ''k.npz'')] [] (Inr (Obj 0)),
      Call ''NpzFile.__getitem__'' [Obj 0, Plain (PStr ''kspace'')] [] (Inr (Arr example_kspace)),
      ecalib_call example_kspace example_kspace,
      Call ''ops.mifft2'' [Arr example_kspace, Plain (PList [PInt 2, PInt 2])] [] (Inr (Arr example_kspace)),
      Call ''utils.bart'' [Plain (PInt 1), Plain (PStr ''poisson -Y 2 -Z 2 -y 1.500000 -z 1.500000 -s 1234 -v -C 20'')] []
        (Inr (Arr example_mask)),
      ecalib_call example_kspace example_kspace,
      Call ''ops.AT_cart'' [Arr example_und, Arr example_kspace, Arr example_mask, Plain (PList [PInt 2, PInt 2])] []
        (Inr (Arr example_kspace))]"

lemma poisson_run:
  "prepare_simu (example_lib True) (example_config True) None (start 0) =
     (Inr (example_kspace, example_mask, example_kspace, (2, 2), example_rss, example_und),
      \<lparr>outside = \<lparr>rng = 0, env = 0\<rparr>, trace = poisson_trace\<rparr>)"
  by (simp add: prepare_simu_def gen_mask_def run_simps Let_def example_simps
      example_format example_mask_squeeze ecalib_def)
    (simp add: tail_simps poisson_trace_def ecalib_call_def ecalib_args_def ecalib_def)

text \<open>
  \<^bold>\<open>C4.\<close> When \<open>prepare_simu\<close> returns, the undersampled k-space has the shape of the
  fully sampled one (the squeezed array read from the file), and for a mask of the k-space's
  two frequency axes whose entries are all 0 or 1 it equals the full k-space wherever the mask
  is 1, for every coil, and is zero wherever the mask is 0.
\<close>

theorem und_ksp_is_masked_kspace:
  assumes run: "prepare_simu x config mask0 s = (Inr (x_zf, msk, coils, (nx, ny), rs, und), s')"
    and m: "shape msk = [nx, ny]"
    and wf: "well_shaped msk"
    and bin: "\<forall>z\<in>set (data msk). z = 0 \<or> z = 1"
  shows "\<exists>npz loaded nc.
     Call ''NpzFile.__getitem__'' [npz, Plain (PStr ''kspace'')] [] (Inr (Arr loaded)) \<in> set (trace s') \<and>
     shape (np_squeeze loaded) = [nx, ny, nc] \<and>
     shape und = [nx, ny, nc] \<and>
     (\<forall>i<nx. \<forall>j<ny. \<forall>c<nc.
        item und [i, j, c] = (if item msk [i, j] = 1 then item (np_squeeze loaded) [i, j, c] else 0))"
proof -
  from prepare_simu_calls[OF run] obtain ksp_path npz loaded nc maps std maps' evs
    where sh: "shape (np_squeeze loaded) = [nx, ny, nc]"
      and un: "undersample (np_squeeze loaded) msk = Inr und"
      and tr: "trace s' = trace s @ first_calls ksp_path npz loaded maps std nx ny @ evs @
                last_calls loaded maps' und coils msk x_zf nx ny"
    by (elim exE conjE)
  have ev: "Call ''NpzFile.__getitem__'' [npz, Plain (PStr ''kspace'')] [] (Inr (Arr loaded)) \<in> set (trace s')"
    unfolding tr by (simp add: first_calls_def)
  have shu: "shape und = [nx, ny, nc]"
    using un undersample_eq[OF sh m] by auto
  have items: "item und [i, j, c] = (if item msk [i, j] = 1 then item (np_squeeze loaded) [i, j, c] else 0)"
    if "i < nx" "j < ny" "c < nc" for i j c
  proof -
    have "item msk [i, j] \<in> set (data msk)"
      using item_in_data[OF m wf that(1,2)] .
    with bin have "item msk [i, j] = 0 \<or> item msk [i, j] = 1"
      by blast
    then show ?thesis
      using undersample_item[OF sh m wf un that] by auto
  qed
  show ?thesis
    apply (rule exI[of _ npz], rule exI[of _ loaded], rule exI[of _ nc])
    using ev sh shu items by blast
qed

lemma example_mask_facts:
  "shape example_mask = [2, 2]" "well_shaped example_mask" "\<forall>z\<in>set (data example_mask). z = 0 \<or> z = 1"
  by (simp_all add: example_mask_def well_shaped_def)

theorem und_ksp_is_masked_kspace_witness:
  "\<exists>npz loaded nc.
     Call ''NpzFile.__getitem__'' [npz, Plain (PStr ''kspace'')] [] (Inr (Arr loaded)) \<in> set gauss_trace \<and>
     shape (np_squeeze loaded) = [2, 2, nc] \<and>
     shape example_und = [2, 2, nc] \<and>
     (\<forall>i<2. \<forall>j<2. \<forall>c<nc.
        item example_und [i, j, c] =
          (if item example_mask [i, j] = 1 then item (np_squeeze loaded) [i, j, c] else 0))"
  using und_ksp_is_masked_kspace[OF gauss_run example_mask_facts] by simp






definition mask_from_toolbox :: "event list \<Rightarrow> ndarray \<Rightarrow> bool" where
  "mask_from_toolbox evs msk =
     list_ex (\<lambda>ev. fname ev = ''utils.bart'' \<and>
                   (case result ev of Inr (Arr raw) \<Rightarrow> msk = np_squeeze raw | _ \<Rightarrow> False)) evs"

definition gen_mask_2D :: string where
  "gen_mask_2D = ''sampling_pattern.gen_mask_2D''"

definition toolbox_deterministic :: "ext \<Rightarrow> bool" where
  "toolbox_deterministic x =
     (\<forall>as kw w w'. fst (lib_arr x ''utils.bart'' as kw w) = fst (lib_arr x ''utils.bart'' as kw w'))"

lemma poisson_format:
  assumes "py_format poisson_template [a, b, c, d, e] = Inr cmd"
  shows "\<exists>sa sb sc sd se.
     fmt_d a = Inr sa \<and> fmt_d b = Inr sb \<and> fmt_f c = Inr sc \<and> fmt_f d = Inr sd \<and> fmt_d e = Inr se \<and>
     cmd = ''poisson -Y '' @ sa @ '' -Z '' @ sb @ '' -y '' @ sc @ '' -z '' @ sd @ '' -s 1234 -v -C '' @ se"
  using assms unfolding poisson_template_def
  by (auto split: sum.splits)

lemma poisson_not_ecalib:
  assumes "py_format poisson_template [a, b, c, d, e] = Inr cmd"
  shows "cmd \<noteq> ecalib" and "take 8 cmd = ''poisson ''"
  using poisson_format[OF assms] by (auto simp: ecalib_def)


lemma commands_first: "toolbox_commands (first_calls ksp_path npz loaded maps std nx ny) = [ecalib]"
  by (simp add: toolbox_commands_def List.map_filter_def first_calls_def bart_command_def ecalib_call_def)

lemma commands_last: "toolbox_commands (last_calls loaded maps und coils msk x_zf nx ny) = [ecalib]"
  by (simp add: toolbox_commands_def List.map_filter_def last_calls_def bart_command_def ecalib_call_def)

lemma commands_append: "toolbox_commands (xs @ ys) = toolbox_commands xs @ toolbox_commands ys"
  by (simp add: toolbox_commands_def List.map_filter_def)

lemma gen_first: "calls_of gen_mask_2D (first_calls ksp_path npz loaded maps std nx ny) = []"
  by (simp add: calls_of_def first_calls_def gen_mask_2D_def ecalib_call_def)

lemma gen_last: "calls_of gen_mask_2D (last_calls loaded maps und coils msk x_zf nx ny) = []"
  by (simp add: calls_of_def last_calls_def gen_mask_2D_def ecalib_call_def)

lemma calls_of_append: "calls_of f (xs @ ys) = calls_of f xs @ calls_of f ys"
  by (simp add: calls_of_def)

text \<open>
  \<^bold>\<open>C2, as amended.\<close> When \<open>prepare_simu\<close> returns, the coil sensitivity maps it returns are the
  squeezed result of a toolbox call (\<open>ecalib\<close>). The mask is the squeezed result of a toolbox
  call (a \<open>poisson\<close> command) when no mask was passed and \<open>config['poisson']\<close> is true; it is
  the result of the library function \<open>sampling_pattern.gen_mask_2D\<close>, with no toolbox call but
  the two \<open>ecalib\<close> ones, when the flag is false; and it is the mask passed in otherwise.
\<close>

theorem mask_and_maps_sources:
  assumes run: "prepare_simu x config mask0 s = (Inr (x_zf, msk, coils, (nx, ny), rs, und), s')"
  shows "\<exists>evs. trace s' = trace s @ evs \<and>
     (\<exists>loaded maps. ecalib_call (np_squeeze loaded) maps \<in> set evs \<and> coils = np_squeeze maps) \<and>
     (case mask0 of
        Some m \<Rightarrow> msk = m \<and> toolbox_commands evs = [ecalib, ecalib] \<and> calls_of gen_mask_2D evs = []
      | None \<Rightarrow>
          (case subscript config ''poisson'' of
             Inl _ \<Rightarrow> False
           | Inr p \<Rightarrow>
               if truthy p
               then calls_of gen_mask_2D evs = [] \<and>
                    (\<exists>cmd raw. toolbox_commands evs = [ecalib, cmd, ecalib] \<and> take 8 cmd = ''poisson '' \<and>
                       Call ''utils.bart'' [Plain (PInt 1), Plain (PStr cmd)] [] (Inr (Arr raw)) \<in> set evs \<and>
                       msk = np_squeeze raw)
               else toolbox_commands evs = [ecalib, ecalib] \<and>
                    (\<exists>cal rate. calls_of gen_mask_2D evs =
                       [Call gen_mask_2D [Plain (PInt (int nx)), Plain (PInt (int ny))]
                          [(''center_r'', Plain cal), (''undersampling'', Plain rate)] (Inr (Arr msk))])))"
proof -
  from prepare_simu_calls[OF run] obtain ksp_path npz loaded maps std maps' evs
    where co: "coils = np_squeeze (np_squeeze maps')"
      and ms: "mask_step config mask0 nx ny msk evs"
      and tr: "trace s' = trace s @ first_calls ksp_path npz loaded maps std nx ny @ evs @
                last_calls loaded maps' und coils msk x_zf nx ny"
    by (elim exE conjE)
  let ?all = "first_calls ksp_path npz loaded maps std nx ny @ evs @
                last_calls loaded maps' und coils msk x_zf nx ny"
  have cmds: "toolbox_commands ?all = ecalib # toolbox_commands evs @ [ecalib]"
    by (simp add: commands_append commands_first commands_last)
  have gens: "calls_of gen_mask_2D ?all = calls_of gen_mask_2D evs"
    by (simp add: calls_of_append gen_first gen_last)
  have maps: "\<exists>loaded maps. ecalib_call (np_squeeze loaded) maps \<in> set ?all \<and> coils = np_squeeze maps"
    using co by (intro exI[of _ loaded] exI[of _ maps']) (simp add: last_calls_def np_squeeze_idem)
  have src: "case mask0 of
        Some m \<Rightarrow> msk = m \<and> toolbox_commands ?all = [ecalib, ecalib] \<and> calls_of gen_mask_2D ?all = []
      | None \<Rightarrow>
          (case subscript config ''poisson'' of
             Inl _ \<Rightarrow> False
           | Inr p \<Rightarrow>
               if truthy p
               then calls_of gen_mask_2D ?all = [] \<and>
                    (\<exists>cmd raw. toolbox_commands ?all = [ecalib, cmd, ecalib] \<and> take 8 cmd = ''poisson '' \<and>
                       Call ''utils.bart'' [Plain (PInt 1), Plain (PStr cmd)] [] (Inr (Arr raw)) \<in> set ?all \<and>
                       msk = np_squeeze raw)
               else toolbox_commands ?all = [ecalib, ecalib] \<and>
                    (\<exists>cal rate. calls_of gen_mask_2D ?all =
                       [Call gen_mask_2D [Plain (PInt (int nx)), Plain (PInt (int ny))]
                          [(''center_r'', Plain cal), (''undersampling'', Plain rate)] (Inr (Arr msk))]))"
  proof (cases mask0)
    case (Some m)
    with ms show ?thesis
      unfolding cmds gens by (simp add: mask_step_def toolbox_commands_def calls_of_def)
  next
    case None
    with ms obtain p where p: "subscript config ''poisson'' = Inr p"
      and alt: "(truthy p \<and>
               (\<exists>fx fy cal cmd raw.
                  subscript config ''fx'' = Inr fx \<and> subscript config ''fy'' = Inr fy \<and>
                  subscript config ''cal'' = Inr cal \<and>
                  py_format poisson_template [PInt (int nx), PInt (int ny), fx, fy, cal] = Inr cmd \<and>
                  evs = [Call ''utils.bart'' [Plain (PInt 1), Plain (PStr cmd)] [] (Inr (Arr raw))] \<and>
                  msk = np_squeeze raw)) \<or>
              (\<not> truthy p \<and>
               (\<exists>cal rate.
                  subscript config ''cal'' = Inr cal \<and> subscript config ''sampling_rate'' = Inr rate \<and>
                  evs = [Call ''sampling_pattern.gen_mask_2D''
                           [Plain (PInt (int nx)), Plain (PInt (int ny))]
                           [(''center_r'', Plain cal), (''undersampling'', Plain rate)]
                           (Inr (Arr msk))]))"
      unfolding mask_step_def by auto
    show ?thesis
    proof (cases "truthy p")
      case True
      with alt obtain fx fy cal cmd raw
        where f: "py_format poisson_template [PInt (int nx), PInt (int ny), fx, fy, cal] = Inr cmd"
          and e: "evs = [Call ''utils.bart'' [Plain (PInt 1), Plain (PStr cmd)] [] (Inr (Arr raw))]"
          and m: "msk = np_squeeze raw"
        by auto
      have "toolbox_commands evs = [cmd]" and "calls_of gen_mask_2D evs = []"
        unfolding e by (simp_all add: toolbox_commands_def List.map_filter_def bart_command_def
            calls_of_def gen_mask_2D_def)
      with None p True poisson_not_ecalib(2)[OF f] m show ?thesis
        unfolding cmds gens by (auto simp: e)
    next
      case False
      with alt obtain cal rate
        where e: "evs = [Call ''sampling_pattern.gen_mask_2D''
                           [Plain (PInt (int nx)), Plain (PInt (int ny))]
                           [(''center_r'', Plain cal), (''undersampling'', Plain rate)]
                           (Inr (Arr msk))]"
        by auto
      have "toolbox_commands evs = []"
        unfolding e by (simp add: toolbox_commands_def List.map_filter_def bart_command_def)
      with None p False show ?thesis
        unfolding cmds gens by (simp add: e calls_of_def gen_mask_2D_def)
    qed
  qed
  from tr maps src show ?thesis
    by (intro exI[of _ ?all] conjI)
qed


theorem mask_and_maps_sources_witness:
  "\<exists>evs. trace \<lparr>outside = \<lparr>rng = 0, env = 0\<rparr>, trace = poisson_trace\<rparr> = trace (start 0) @ evs \<and>
     (\<exists>loaded maps. ecalib_call (np_squeeze loaded) maps \<in> set evs \<and> example_kspace = np_squeeze maps) \<and>
     (case None of
        Some m \<Rightarrow> example_mask = m \<and> toolbox_commands evs = [ecalib, ecalib] \<and> calls_of gen_mask_2D evs = []
      | None \<Rightarrow>
          (case subscript (example_config True) ''poisson'' of
             Inl _ \<Rightarrow> False
           | Inr p \<Rightarrow>
               if truthy p
               then calls_of gen_mask_2D evs = [] \<and>
                    (\<exists>cmd raw. toolbox_commands evs = [ecalib, cmd, ecalib] \<and> take 8 cmd = ''poisson '' \<and>
                       Call ''utils.bart'' [Plain (PInt 1), Plain (PStr cmd)] [] (Inr (Arr raw)) \<in> set evs \<and>
                       example_mask = np_squeeze raw)
               else toolbox_commands evs = [ecalib, ecalib] \<and>
                    (\<exists>cal rate. calls_of gen_mask_2D evs =
                       [Call gen_mask_2D [Plain (PInt (int 2)), Plain (PInt (int 2))]
                          [(''center_r'', Plain cal), (''undersampling'', Plain rate)] (Inr (Arr example_mask))])))"
  by (rule mask_and_maps_sources[OF poisson_run])

lemma gauss_commands: "toolbox_commands gauss_trace = [ecalib, ecalib]"
  by (simp add: toolbox_commands_def List.map_filter_def gauss_trace_def bart_command_def ecalib_call_def)

lemma gauss_not_from_toolbox: "\<not> mask_from_toolbox gauss_trace example_mask"
  by (simp add: mask_from_toolbox_def gauss_trace_def ecalib_call_def example_squeeze)
    (simp add: example_mask_def example_kspace_def)

text \<open>
  \<^bold>\<open>C2, as stated, fails.\<close> With \<open>poisson: false\<close> the toolbox is called for \<open>ecalib\<close> only, and
  the mask that \<open>prepare_simu\<close> returns is what \<open>gen_mask_2D\<close> returned, not the result of any
  toolbox call.
\<close>

theorem mask_from_toolbox_counterexample:
  "prepare_simu (example_lib False) (example_config False) None (start 0) =
     (Inr (example_kspace, example_mask, example_kspace, (2, 2), example_rss, example_und),
      \<lparr>outside = \<lparr>rng = 1, env = 0\<rparr>, trace = gauss_trace\<rparr>) \<and>
   subscript (example_config False) ''poisson'' = Inr (PBool False) \<and>
   toolbox_commands gauss_trace = [ecalib, ecalib] \<and>
   \<not> mask_from_toolbox gauss_trace example_mask"
  using gauss_run gauss_commands gauss_not_from_toolbox
  by (simp add: example_config_def subscript_def)

lemma ecalib_filter_first:
  "filter (\<lambda>ev. bart_command ev = Some ecalib) (first_calls ksp_path npz loaded maps std nx ny) =
     [ecalib_call (np_squeeze loaded) maps]"
  by (simp add: first_calls_def bart_command_def ecalib_call_def)

lemma ecalib_filter_last:
  "filter (\<lambda>ev. bart_command ev = Some ecalib) (last_calls loaded maps und coils msk x_zf nx ny) =
     [ecalib_call (np_squeeze loaded) maps]"
  by (simp add: last_calls_def bart_command_def ecalib_call_def)

lemma ecalib_filter_mask_step:
  assumes "mask_step config mask0 nx ny msk evs"
  shows "filter (\<lambda>ev. bart_command ev = Some ecalib) evs = []"
proof (cases mask0)
  case (Some m)
  with assms show ?thesis
    by (simp add: mask_step_def)
next
  case None
  with assms show ?thesis
    unfolding mask_step_def
    by (auto simp: bart_command_def dest: poisson_not_ecalib(1))
qed

text \<open>
  \<^bold>\<open>C10.\<close> A returning \<open>prepare_simu\<close> has called the toolbox with the \<open>ecalib\<close> command exactly
  twice, on the same k-space. When the toolbox's result is a function of its arguments, both
  calls return the same maps: the reference image \<open>rss\<close> is formed with them, squeezed, and the
  maps returned are the same squeezed maps.
\<close>

theorem coil_maps_computed_twice:
  assumes run: "prepare_simu x config mask0 s = (Inr (x_zf, msk, coils, (nx, ny), rs, und), s')"
    and det: "toolbox_deterministic x"
  shows "\<exists>evs loaded maps std weighted.
     trace s' = trace s @ evs \<and>
     filter (\<lambda>ev. bart_command ev = Some ecalib) evs =
       [ecalib_call (np_squeeze loaded) maps, ecalib_call (np_squeeze loaded) maps] \<and>
     np_multiply std (np_squeeze (np_conj (np_squeeze maps))) = Inr weighted \<and>
     np_sum 2 weighted = Inr rs \<and>
     coils = np_squeeze maps"
proof -
  from prepare_simu_calls[OF run] obtain ksp_path npz loaded nc maps std weighted maps' evs wa wb wc wd
    where b1: "lib_arr x ''utils.bart'' (ecalib_args (np_squeeze loaded)) [] wa = (Inr maps, wb)"
      and b2: "lib_arr x ''utils.bart'' (ecalib_args (np_squeeze loaded)) [] wc = (Inr maps', wd)"
      and mu: "np_multiply std (np_squeeze (np_conj (np_squeeze maps))) = Inr weighted"
      and su: "np_sum 2 weighted = Inr rs"
      and co: "coils = np_squeeze (np_squeeze maps')"
      and ms: "mask_step config mask0 nx ny msk evs"
      and tr: "trace s' = trace s @ first_calls ksp_path npz loaded maps std nx ny @ evs @
                last_calls loaded maps' und coils msk x_zf nx ny"
    by (elim exE conjE)
  have "fst (lib_arr x ''utils.bart'' (ecalib_args (np_squeeze loaded)) [] wa) =
        fst (lib_arr x ''utils.bart'' (ecalib_args (np_squeeze loaded)) [] wc)"
    using det unfolding toolbox_deterministic_def by blast
  with b1 b2 have same: "maps' = maps"
    by simp
  let ?all = "first_calls ksp_path npz loaded maps std nx ny @ evs @
                last_calls loaded maps' und coils msk x_zf nx ny"
  have fl: "filter (\<lambda>ev. bart_command ev = Some ecalib) ?all =
       [ecalib_call (np_squeeze loaded) maps, ecalib_call (np_squeeze loaded) maps]"
    by (simp add: ecalib_filter_first ecalib_filter_last ecalib_filter_mask_step[OF ms] same)
  have co': "coils = np_squeeze maps"
    using co same by (simp add: np_squeeze_idem)
  from tr fl mu su co' show ?thesis
    by (intro exI[of _ ?all] exI[of _ loaded] exI[of _ maps] exI[of _ std] exI[of _ weighted] conjI)
qed

lemma example_deterministic: "toolbox_deterministic (example_lib p)"
  by (simp add: toolbox_deterministic_def example_lib_arr)

theorem coil_maps_computed_twice_witness:
  "\<exists>evs loaded maps std weighted.
     trace \<lparr>outside = \<lparr>rng = 1, env = 0\<rparr>, trace = gauss_trace\<rparr> = trace (start 0) @ evs \<and>
     filter (\<lambda>ev. bart_command ev = Some ecalib) evs =
       [ecalib_call (np_squeeze loaded) maps, ecalib_call (np_squeeze loaded) maps] \<and>
     np_multiply std (np_squeeze (np_conj (np_squeeze maps))) = Inr weighted \<and>
     np_sum 2 weighted = Inr example_rss \<and>
     example_kspace = np_squeeze maps"
  by (rule coil_maps_computed_twice[OF gauss_run example_deterministic])















































section \<open>Exceptions\<close>

text \<open>
  The source has no \<open>try\<close>, no \<open>raise\<close> and no \<open>assert\<close>. A run of such a script ends in an
  exception exactly when a call into the library or an operator raised, it ends there, and
  the exception of the script is that exception. \<open>ends_as r evs\<close> says this of a run with
  result \<open>r\<close> and events \<open>evs\<close>: no event but the last has raised, the last has raised exactly
  when the result is an exception, which is then the one it raised, and an operator that
  raised is one of the operators of Python and numpy (not a statement of the script).
\<close>

definition is_fault :: "event \<Rightarrow> bool" where
  "is_fault ev = (case ev of Fault _ _ \<Rightarrow> True | Call _ _ _ _ \<Rightarrow> False)"

definition clean :: "event list \<Rightarrow> bool" where
  "clean evs = list_all (\<lambda>ev. raised ev = None) evs"

definition ends_as :: "error + 'a \<Rightarrow> event list \<Rightarrow> bool" where
  "ends_as r evs =
     (list_all (\<lambda>ev. is_fault ev \<longrightarrow> fname ev \<in> set operators) evs \<and>
      (case r of
         Inr _ \<Rightarrow> clean evs
       | Inl e \<Rightarrow> evs \<noteq> [] \<and> clean (butlast evs) \<and> raised (last evs) = Some e))"

definition uncaught :: "'a prog \<Rightarrow> bool" where
  "uncaught m = (\<forall>s. \<exists>evs. trace (snd (m s)) = trace s @ evs \<and> ends_as (fst (m s)) evs)"

text \<open>What a handler would be, for comparison: \<open>try: m except: h\<close>.\<close>

definition try_except :: "'a prog \<Rightarrow> (error \<Rightarrow> 'a prog) \<Rightarrow> 'a prog" where
  "try_except m h = (\<lambda>s. case m s of (Inl e, s') \<Rightarrow> h e s' | (Inr v, s') \<Rightarrow> (Inr v, s'))"

lemma in_operators:
  "''[]'' \<in> set operators" "''unpack'' \<in> set operators" "''keys'' \<in> set operators"
  "''%'' \<in> set operators" "''*'' \<in> set operators" "''+'' \<in> set operators"
  "''-'' \<in> set operators" "''/'' \<in> set operators" "''neg'' \<in> set operators"
  "''int'' \<in> set operators" "''range'' \<in> set operators" "''os.path.join'' \<in> set operators"
  "''np.multiply'' \<in> set operators" "''np.sum'' \<in> set operators"
  by (simp_all add: operators_def)

lemma clean_append: "clean (xs @ ys) \<longleftrightarrow> clean xs \<and> clean ys"
  by (simp add: clean_def)

lemma ends_as_append:
  assumes "ends_as (Inr v) e1" and "ends_as r e2"
  shows "ends_as r (e1 @ e2)"
proof (cases r)
  case (Inr u)
  with assms show ?thesis
    by (simp add: ends_as_def clean_append)
next
  case (Inl e)
  with assms have "e2 \<noteq> []"
    by (simp add: ends_as_def)
  then have "butlast (e1 @ e2) = e1 @ butlast e2" "last (e1 @ e2) = last e2"
    by (simp_all add: butlast_append)
  with assms Inl show ?thesis
    by (simp add: ends_as_def clean_append)
qed

lemma uncaught_ret: "uncaught (ret v)"
  by (simp add: uncaught_def ret_def ends_as_def clean_def)

lemma uncaught_lift: "op \<in> set operators \<Longrightarrow> uncaught (lift op r)"
  by (cases r) (simp_all add: uncaught_def lift_def ends_as_def clean_def raised_def is_fault_def)

lemma ends_as_call: "ends_as r [Call f as kw (map_sum id g r)]"
  by (cases r) (simp_all add: ends_as_def clean_def raised_def is_fault_def)

lemma uncaught_call: "uncaught (call x f as kw)"
  unfolding uncaught_def
proof
  fix s :: state
  obtain r w where l: "lib x f as kw (outside s) = (r, w)"
    by (cases "lib x f as kw (outside s)")
  from ends_as_call[of r f as kw id] have "ends_as r [Call f as kw r]"
    by (simp add: sum.map_id)
  with l show "\<exists>evs. trace (snd (call x f as kw s)) = trace s @ evs \<and> ends_as (fst (call x f as kw s)) evs"
    by (simp add: call_def)
qed

lemma uncaught_call_arr: "uncaught (call_arr x f as kw)"
  unfolding uncaught_def
proof
  fix s :: state
  obtain r w where l: "lib_arr x f as kw (outside s) = (r, w)"
    by (cases "lib_arr x f as kw (outside s)")
  from l ends_as_call[of r f as kw Arr]
  show "\<exists>evs. trace (snd (call_arr x f as kw s)) = trace s @ evs \<and>
              ends_as (fst (call_arr x f as kw s)) evs"
    by (simp add: call_arr_def)
qed

lemma uncaught_bind:
  assumes m: "uncaught m" and f: "\<And>v. uncaught (f v)"
  shows "uncaught (bind m f)"
  unfolding uncaught_def
proof
  fix s :: state
  obtain r s1 where ms: "m s = (r, s1)"
    by (cases "m s")
  from m[unfolded uncaught_def, rule_format, of s] ms
  obtain e1 where t1: "trace s1 = trace s @ e1" and p1: "ends_as r e1"
    by auto
  show "\<exists>evs. trace (snd (bind m f s)) = trace s @ evs \<and> ends_as (fst (bind m f s)) evs"
  proof (cases r)
    case (Inl e)
    with ms t1 p1 show ?thesis
      by (simp add: bind_def ends_as_def)
  next
    case (Inr v)
    obtain r2 s2 where fs: "f v s1 = (r2, s2)"
      by (cases "f v s1")
    from f[of v, unfolded uncaught_def, rule_format, of s1] fs
    obtain e2 where t2: "trace s2 = trace s1 @ e2" and p2: "ends_as r2 e2"
      by auto
    from p1 Inr p2 have "ends_as r2 (e1 @ e2)"
      by (auto intro: ends_as_append)
    with ms Inr fs t1 t2 show ?thesis
      by (intro exI[of _ "e1 @ e2"]) (simp add: bind_def)
  qed
qed

lemma uncaught_if: "uncaught a \<Longrightarrow> uncaught b \<Longrightarrow> uncaught (if c then a else b)"
  by simp

lemma uncaught_case_prod: "(\<And>a b. uncaught (f a b)) \<Longrightarrow> uncaught (case p of (a, b) \<Rightarrow> f a b)"
  by (cases p) simp

lemma uncaught_case_option:
  "uncaught a \<Longrightarrow> (\<And>v. uncaught (f v)) \<Longrightarrow> uncaught (case opt of None \<Rightarrow> a | Some v \<Rightarrow> f v)"
  by (cases opt) simp_all

lemmas uncaught_intros =
  uncaught_bind uncaught_ret uncaught_lift uncaught_call uncaught_call_arr
  uncaught_if uncaught_case_prod in_operators

lemma uncaught_extends: "uncaught m \<Longrightarrow> \<exists>evs. trace (snd (m s)) = trace s @ evs"
  by (auto simp: uncaught_def)

subsection \<open>What the property excludes\<close>

lemma handler_is_excluded:
  assumes "fst (lib x f as kw (outside (s :: state))) = Inl e"
  shows "\<not> uncaught (try_except (call x f as kw) (\<lambda>_. ret v))"
proof
  assume "uncaught (try_except (call x f as kw) (\<lambda>_. ret v))"
  from this[unfolded uncaught_def, rule_format, of s] obtain evs
    where t: "trace (snd (try_except (call x f as kw) (\<lambda>_. ret v) s)) = trace s @ evs"
      and e: "ends_as (fst (try_except (call x f as kw) (\<lambda>_. ret v) s)) evs"
    by (elim exE conjE)
  from assms obtain w where l: "lib x f as kw (outside s) = (Inl e, w)"
    by (cases "lib x f as kw (outside s)") simp
  from t l have "evs = [Call f as kw (Inl e)]"
    by (simp add: try_except_def call_def ret_def)
  with e l show False
    by (simp add: try_except_def call_def ret_def ends_as_def clean_def raised_def)
qed

lemma raise_is_excluded: "\<not> uncaught (\<lambda>s. (Inl e, s))"
  by (simp add: uncaught_def ends_as_def)

lemma foreign_fault_is_excluded: "op \<notin> set operators \<Longrightarrow> \<not> uncaught (lift op (Inl e))"
  by (simp add: uncaught_def lift_def ends_as_def is_fault_def)

subsection \<open>The two notebooks\<close>

lemma uncaught_unary: "op \<in> set operators \<Longrightarrow> uncaught (unary x op f a)"
  unfolding unary_def by (auto split: pyval.splits intro!: uncaught_intros)

lemma uncaught_binary: "op \<in> set operators \<Longrightarrow> uncaught (binary x op f a b)"
  unfolding binary_def by (auto split: pyval.splits intro!: uncaught_intros)

lemma uncaught_items: "uncaught (items x v)"
  unfolding items_def by (auto split: pyval.splits pyobj.splits intro!: uncaught_intros)

lemma uncaught_unpack2: "uncaught (unpack2 x v)"
  unfolding unpack2_def by (auto split: list.splits intro!: uncaught_intros uncaught_items)

lemma uncaught_unpack4: "uncaught (unpack4 x v)"
  unfolding unpack4_def by (auto split: list.splits intro!: uncaught_intros uncaught_items)

lemma uncaught_import: "uncaught (import_module x name names)"
  unfolding import_module_def by (rule uncaught_call)

lemma uncaught_find_files: "uncaught (find_files x config key)"
  unfolding find_files_def by (intro uncaught_intros)

lemma uncaught_batch_size: "uncaught (batch_size config)"
  unfolding batch_size_def by (intro uncaught_intros)

lemma uncaught_shape_info: "uncaught (shape_info config)"
  unfolding shape_info_def by (intro uncaught_intros)

lemma uncaught_train_pipe: "uncaught (train_pipe x config files)"
  unfolding train_pipe_def by (intro uncaught_intros uncaught_batch_size uncaught_shape_info)

lemma uncaught_test_pipe: "uncaught (test_pipe x config files)"
  unfolding test_pipe_def by (intro uncaught_intros uncaught_batch_size uncaught_shape_info)

lemma uncaught_log_path: "uncaught (log_path x go name)"
  unfolding log_path_def by (intro uncaught_intros)

lemma uncaught_log_marker: "uncaught (log_marker x go message)"
  unfolding log_marker_def by (intro uncaught_intros uncaught_log_path)

lemma uncaught_train_body: "uncaught (train_body x config)"
  unfolding train_body_def
  by (intro uncaught_intros uncaught_find_files uncaught_train_pipe uncaught_test_pipe
      uncaught_log_path uncaught_log_marker uncaught_import)

lemma uncaught_train_imports: "uncaught (train_imports x)"
  unfolding train_imports_def by (intro uncaught_intros uncaught_import)

lemma uncaught_train_script: "uncaught (train_script x)"
  unfolding train_script_def by (intro uncaught_intros uncaught_train_body uncaught_train_imports)

lemma uncaught_apply_func: "uncaught (apply_func x config f v)"
  by (cases f; cases v)
    (simp_all add: npz_loader_def squeeze_def normalize_def slice_image_def randint_def,
      (intro uncaught_intros)+)

lemma uncaught_apply_part: "uncaught (apply_part x config fs v)"
  by (induction fs arbitrary: v) (auto intro!: uncaught_intros uncaught_apply_func)

lemma uncaught_gen_mask: "uncaught (gen_mask x config nx ny)"
  unfolding gen_mask_def by (intro uncaught_intros)

lemma uncaught_prepare_simu: "uncaught (prepare_simu x config mask0)"
  unfolding prepare_simu_def Let_def
  by (intro uncaught_intros uncaught_case_option uncaught_gen_mask)

lemma uncaught_load_configs: "uncaught (load_configs x)"
  unfolding load_configs_def by (intro uncaught_intros)

lemma uncaught_model_path: "uncaught (model_path config)"
  unfolding model_path_def by (intro uncaught_intros)

lemma uncaught_seed_twice: "uncaught (seed_twice x model_config)"
  unfolding seed_twice_def by (intro uncaught_intros)

lemma uncaught_simulate: "uncaught (simulate x)"
  unfolding simulate_def
  by (intro uncaught_intros uncaught_load_configs uncaught_model_path uncaught_seed_twice
      uncaught_prepare_simu)

lemma uncaught_after_prepare: "uncaught (after_prepare x simu)"
  unfolding after_prepare_def Let_def split_beta by (intro uncaught_intros)

lemma uncaught_opt_key: "uncaught (opt_key config k d)"
  unfolding opt_key_def by (intro uncaught_intros)

lemma uncaught_tail_of: "uncaught (tail_of x images lower)"
  unfolding tail_of_def by (auto split: pyval.splits pyobj.splits intro!: uncaught_intros)

lemma uncaught_burn_in_images: "uncaught (burn_in_images x config ins_sampler images)"
  unfolding burn_in_images_def
  by (intro uncaught_intros uncaught_binary uncaught_unary uncaught_tail_of)

lemma uncaught_complex_images: "uncaught (complex_images x images)"
  unfolding complex_images_def by (intro uncaught_intros)

lemma uncaught_sampler_cell: "uncaught (sampler_cell x config model_config p)"
  unfolding sampler_cell_def
  by (intro uncaught_intros uncaught_opt_key uncaught_model_path uncaught_burn_in_images
      uncaught_complex_images)

lemma uncaught_normalize_cell: "uncaught (normalize_cell x p images)"
  unfolding normalize_cell_def by (intro uncaught_intros)

lemma uncaught_mean_of_samples: "uncaught (mean_of_samples x n_steps lo hi rets)"
  unfolding mean_of_samples_def np_mean_def by (intro uncaught_intros)

lemma uncaught_expectation_estimates: "uncaught (expectation_estimates x n_steps rets)"
  unfolding expectation_estimates_def np_mean_def
  by (intro uncaught_intros uncaught_mean_of_samples)

lemma uncaught_metric_pair: "uncaught (metric_pair x e i reference)"
  unfolding metric_pair_def by (intro uncaught_intros)

lemma uncaught_metrics_row: "uncaught (metrics_row x es reference i)"
  unfolding metrics_row_def by (intro uncaught_intros uncaught_metric_pair)

lemma uncaught_metrics_loop: "uncaught (metrics_loop x es reference is)"
  by (induction "is") (auto intro!: uncaught_intros uncaught_metrics_row)

lemma uncaught_metrics_cell: "uncaught (metrics_cell x n)"
  unfolding metrics_cell_def
  by (intro uncaught_intros uncaught_metrics_loop uncaught_expectation_estimates)

lemma uncaught_plot_curves: "uncaught (plot_curves x ax1 ax2 psnrs ssims cs)"
  by (induction cs) (auto intro!: uncaught_intros)

lemma uncaught_decorate: "uncaught (decorate x ax name)"
  unfolding decorate_def by (intro uncaught_intros)

lemma uncaught_curves_cell: "uncaught (curves_cell x psnrs ssims)"
  unfolding curves_cell_def
  by (intro uncaught_intros uncaught_plot_curves uncaught_decorate uncaught_unpack2 uncaught_import)

lemma uncaught_axplot: "uncaught (axplot x rss_max ax img title)"
  unfolding axplot_def by (intro uncaught_intros)

lemma uncaught_compare_cell: "uncaught (compare_cell x n es)"
  unfolding compare_cell_def
  by (intro uncaught_intros uncaught_axplot uncaught_unpack2 uncaught_unpack4)

lemma uncaught_axes_at: "uncaught (axes_at x axss i j)"
  unfolding axes_at_def by (auto split: pyval.splits intro!: uncaught_intros)

lemma uncaught_grid_plot: "uncaught (grid_plot x rss_max axss samples i j)"
  unfolding grid_plot_def by (intro uncaught_intros uncaught_axes_at uncaught_axplot)

lemma uncaught_for_each: "(\<And>i. uncaught (body i)) \<Longrightarrow> uncaught (for_each body is)"
  by (induction "is") (auto intro!: uncaught_intros)

lemma uncaught_samples_cell: "uncaught (samples_cell x n rss_max)"
  unfolding samples_cell_def
  by (intro uncaught_intros uncaught_for_each uncaught_grid_plot uncaught_unpack2)

lemma uncaught_path_cell: "uncaught (path_cell x)"
  unfolding path_cell_def environ_def
  by (intro uncaught_intros uncaught_binary uncaught_import)

lemma uncaught_imports_cell: "uncaught (imports_cell x)"
  unfolding imports_cell_def by (intro uncaught_intros uncaught_import)

lemma uncaught_recon_notebook: "uncaught (recon_notebook x)"
  unfolding recon_notebook_def
  by (intro uncaught_intros uncaught_path_cell uncaught_imports_cell uncaught_simulate
      uncaught_after_prepare uncaught_sampler_cell uncaught_normalize_cell uncaught_metrics_cell
      uncaught_curves_cell uncaught_compare_cell uncaught_samples_cell)

text \<open>\<^bold>\<open>C6\<close>. In every run of the training notebook, of the functions of its data pipe, of
  \<open>prepare_simu\<close> and of the reconstruction notebook, with any library and from any state:
  the run ends in an exception exactly when a call into the library or the toolbox, or an
  operator of Python or numpy applied by the script, has raised; that event is then the last
  event of the run (nothing is retried, nothing is called afterwards), and the exception of
  the run is the exception it raised (no handler replaces or swallows it). No run fails
  without such an event: the scripts raise nothing themselves.\<close>

theorem exceptions_propagate:
  "uncaught (train_script x) \<and> uncaught (apply_part x config fs v) \<and>
   uncaught (prepare_simu x config given_mask) \<and> uncaught (recon_notebook x)"
  by (intro conjI uncaught_train_script uncaught_apply_part uncaught_prepare_simu
      uncaught_recon_notebook)

section \<open>The log markers of the training script\<close>

text \<open>A monitor reads the calls of a run in order and rejects a run that trains before the start
  marker was written, or writes a marker without a fresh stamp, or writes the end marker before
  training has returned.\<close>

datatype phase = Before | Started | Trained | Ended

type_synonym mon = "phase \<times> pyval option"

definition ends_with :: "string \<Rightarrow> string \<Rightarrow> bool" where
  "ends_with suffix q = (drop (length q - length suffix) q = suffix)"

definition starting :: string where
  "starting = ''The training is starting''"

definition ending :: string where
  "ending = ''The training is ending''"

text \<open>The stamp and the message of a call that logs a stamped message to a \<open>config.yaml\<close>.\<close>

definition log_message :: "event \<Rightarrow> (pyval \<times> string) option" where
  "log_message ev =
     (if fname ev = ''utils.log_to''
      then (case args ev of
              [Plain (PStr q), Seq [ts, Plain (PStr m)]] \<Rightarrow>
                if ends_with ''config.yaml'' q then Some (ts, m) else None
            | _ \<Rightarrow> None)
      else None)"

definition returned :: "event \<Rightarrow> pyval option" where
  "returned ev = (case result ev of Inr v \<Rightarrow> Some v | Inl _ \<Rightarrow> None)"

definition step :: "mon \<Rightarrow> event \<Rightarrow> mon option" where
  "step \<sigma> ev =
     (if fname ev = ''utils.get_timestamp'' then Some (fst \<sigma>, returned ev)
      else if fname ev = ''trainer.train'' then
        (if fst \<sigma> = Before then None
         else Some (if raised ev = None \<and> fst \<sigma> = Started then Trained else fst \<sigma>, None))
      else
        (case log_message ev of
           None \<Rightarrow> Some (fst \<sigma>, None)
         | Some (ts, m) \<Rightarrow>
             if m = ending then
               (if (fst \<sigma> = Trained \<or> fst \<sigma> = Ended) \<and> snd \<sigma> = Some ts
                then Some (if raised ev = None then Ended else fst \<sigma>, None)
                else None)
             else if m = starting then
               (if snd \<sigma> = Some ts
                then Some (if raised ev = None \<and> fst \<sigma> = Before then Started else fst \<sigma>, None)
                else None)
             else Some (fst \<sigma>, None)))"

fun monitor :: "mon \<Rightarrow> event list \<Rightarrow> mon option" where
  "monitor \<sigma> [] = Some \<sigma>"
| "monitor \<sigma> (ev # evs) = (case step \<sigma> ev of None \<Rightarrow> None | Some \<sigma>' \<Rightarrow> monitor \<sigma>' evs)"

definition obeys :: "(mon \<Rightarrow> bool) \<Rightarrow> 'a prog \<Rightarrow> ('a \<Rightarrow> mon \<Rightarrow> bool) \<Rightarrow> bool" where
  "obeys P m Q =
     (\<forall>s \<sigma>. P \<sigma> \<longrightarrow>
        (\<exists>evs. trace (snd (m s)) = trace s @ evs \<and>
           (case fst (m s) of
              Inr v \<Rightarrow> (\<exists>\<sigma>'. monitor \<sigma> evs = Some \<sigma>' \<and> Q v \<sigma>')
            | Inl e \<Rightarrow> monitor \<sigma> evs \<noteq> None)))"

lemma monitor_append:
  "monitor \<sigma> (xs @ ys) = (case monitor \<sigma> xs of None \<Rightarrow> None | Some \<sigma>' \<Rightarrow> monitor \<sigma>' ys)"
  by (induction xs arbitrary: \<sigma>) (auto split: option.splits)

lemma obeys_ret: "obeys (Q v) (ret v) Q"
  by (simp add: obeys_def ret_def)

lemma operators_quiet:
  assumes "op \<in> set operators"
  shows "op \<noteq> ''utils.get_timestamp''" and "op \<noteq> ''trainer.train''" and "op \<noteq> ''utils.log_to''"
  using assms by (auto simp: operators_def)

lemma step_fault:
  assumes "op \<in> set operators"
  shows "step \<sigma> (Fault op e) = Some (fst \<sigma>, None)"
  using operators_quiet[OF assms] by (simp add: step_def log_message_def)

lemma obeys_lift:
  assumes "op \<in> set operators"
  shows "obeys (\<lambda>\<sigma>. fst \<sigma> = p) (lift op r) (\<lambda>v \<sigma>. fst \<sigma> = p \<and> r = Inr v)"
  by (cases r) (simp_all add: obeys_def lift_def step_fault[OF assms])

lemma obeys_weaken:
  assumes "obeys P m Q" and "\<And>\<sigma>. P' \<sigma> \<Longrightarrow> P \<sigma>" and "\<And>v \<sigma>. Q v \<sigma> \<Longrightarrow> Q' v \<sigma>"
  shows "obeys P' m Q'"
  unfolding obeys_def
proof (intro allI impI)
  fix s :: state and \<sigma> :: mon
  assume "P' \<sigma>"
  then have "P \<sigma>"
    by (rule assms(2))
  from assms(1)[unfolded obeys_def, rule_format, OF this, of s]
  obtain evs where t: "trace (snd (m s)) = trace s @ evs"
    and c: "case fst (m s) of
              Inr v \<Rightarrow> (\<exists>\<sigma>'. monitor \<sigma> evs = Some \<sigma>' \<and> Q v \<sigma>')
            | Inl e \<Rightarrow> monitor \<sigma> evs \<noteq> None"
    by (elim exE conjE)
  from c have "case fst (m s) of
              Inr v \<Rightarrow> (\<exists>\<sigma>'. monitor \<sigma> evs = Some \<sigma>' \<and> Q' v \<sigma>')
            | Inl e \<Rightarrow> monitor \<sigma> evs \<noteq> None"
    using assms(3) by (auto split: sum.splits)
  with t show "\<exists>evs. trace (snd (m s)) = trace s @ evs \<and>
           (case fst (m s) of
              Inr v \<Rightarrow> (\<exists>\<sigma>'. monitor \<sigma> evs = Some \<sigma>' \<and> Q' v \<sigma>')
            | Inl e \<Rightarrow> monitor \<sigma> evs \<noteq> None)"
    by (intro exI[of _ evs] conjI)
qed

lemma obeys_bind:
  assumes m: "obeys P m Q" and f: "\<And>v. obeys (Q v) (f v) R"
  shows "obeys P (bind m f) R"
  unfolding obeys_def
proof (intro allI impI)
  fix s :: state and \<sigma> :: mon
  assume P: "P \<sigma>"
  obtain r s1 where ms: "m s = (r, s1)"
    by (cases "m s")
  from m[unfolded obeys_def, rule_format, OF P, of s] ms
  obtain e1 where t1: "trace s1 = trace s @ e1"
    and c1: "case r of Inr v \<Rightarrow> (\<exists>\<sigma>'. monitor \<sigma> e1 = Some \<sigma>' \<and> Q v \<sigma>') | Inl e \<Rightarrow> monitor \<sigma> e1 \<noteq> None"
    by auto
  show "\<exists>evs. trace (snd (bind m f s)) = trace s @ evs \<and>
           (case fst (bind m f s) of
              Inr v \<Rightarrow> (\<exists>\<sigma>'. monitor \<sigma> evs = Some \<sigma>' \<and> R v \<sigma>')
            | Inl e \<Rightarrow> monitor \<sigma> evs \<noteq> None)"
  proof (cases r)
    case (Inl e)
    with ms t1 c1 show ?thesis
      by (simp add: bind_def)
  next
    case (Inr v)
    with c1 obtain \<sigma>1 where m1: "monitor \<sigma> e1 = Some \<sigma>1" and q: "Q v \<sigma>1"
      by auto
    obtain r2 s2 where fs: "f v s1 = (r2, s2)"
      by (cases "f v s1")
    from f[of v, unfolded obeys_def, rule_format, OF q, of s1] fs
    obtain e2 where t2: "trace s2 = trace s1 @ e2"
      and c2: "case r2 of Inr u \<Rightarrow> (\<exists>\<sigma>'. monitor \<sigma>1 e2 = Some \<sigma>' \<and> R u \<sigma>') | Inl e \<Rightarrow> monitor \<sigma>1 e2 \<noteq> None"
      by auto
    have "monitor \<sigma> (e1 @ e2) = monitor \<sigma>1 e2"
      by (simp add: monitor_append m1)
    with c2 have "case r2 of Inr u \<Rightarrow> (\<exists>\<sigma>'. monitor \<sigma> (e1 @ e2) = Some \<sigma>' \<and> R u \<sigma>')
                  | Inl e \<Rightarrow> monitor \<sigma> (e1 @ e2) \<noteq> None"
      by (auto split: sum.splits)
    with ms Inr fs t1 t2 show ?thesis
      by (intro exI[of _ "e1 @ e2"]) (simp add: bind_def)
  qed
qed

definition kept :: "'a prog \<Rightarrow> bool" where
  "kept m = (\<forall>p. obeys (\<lambda>\<sigma>. fst \<sigma> = p) m (\<lambda>_ \<sigma>. fst \<sigma> = p))"

lemma obeys_assume: "(C \<Longrightarrow> obeys P m Q) \<Longrightarrow> obeys (\<lambda>\<sigma>. P \<sigma> \<and> C) m Q"
  by (cases C) (simp_all add: obeys_def)

lemma ends_with_config: "ends_with ''config.yaml'' (path_join q ''config.yaml'')"
  by (simp add: ends_with_def path_join_def)

lemma ends_with_files: "\<not> ends_with ''config.yaml'' (path_join q ''training files'')"
  by (simp add: ends_with_def path_join_def)

lemma os_path_join_Inr:
  "os_path_join folder (Plain (PStr name)) = Inr path \<Longrightarrow> \<exists>q. path = Plain (PStr (path_join q name))"
  by (auto simp: os_path_join_def split: pyval.splits pyobj.splits)

lemma obeys_call:
  assumes "\<And>r \<sigma>. P \<sigma> \<Longrightarrow>
     (case r of Inr v \<Rightarrow> (\<exists>\<sigma>'. step \<sigma> (Call f as kw (Inr v)) = Some \<sigma>' \<and> Q v \<sigma>')
      | Inl e \<Rightarrow> step \<sigma> (Call f as kw (Inl e)) \<noteq> None)"
  shows "obeys P (call x f as kw) Q"
  unfolding obeys_def
proof (intro allI impI)
  fix s :: state and \<sigma> :: mon
  assume P: "P \<sigma>"
  obtain r w where l: "lib x f as kw (outside s) = (r, w)"
    by (cases "lib x f as kw (outside s)")
  from assms[OF P, of r] l
  show "\<exists>evs. trace (snd (call x f as kw s)) = trace s @ evs \<and>
           (case fst (call x f as kw s) of
              Inr v \<Rightarrow> (\<exists>\<sigma>'. monitor \<sigma> evs = Some \<sigma>' \<and> Q v \<sigma>')
            | Inl e \<Rightarrow> monitor \<sigma> evs \<noteq> None)"
    by (intro exI[of _ "[Call f as kw r]"]) (auto simp: call_def split: sum.splits option.splits)
qed

lemma kept_call:
  assumes "f \<noteq> ''utils.get_timestamp''" and "f \<noteq> ''trainer.train''" and "f \<noteq> ''utils.log_to''"
  shows "kept (call x f as kw)"
  unfolding kept_def
  by (intro allI obeys_call) (simp add: step_def log_message_def assms split: sum.splits)

lemma kept_lift:
  assumes "op \<in> set operators"
  shows "kept (lift op r)"
  unfolding kept_def
proof
  fix p
  show "obeys (\<lambda>\<sigma>. fst \<sigma> = p) (lift op r) (\<lambda>_ \<sigma>. fst \<sigma> = p)"
    by (rule obeys_weaken[OF obeys_lift[OF assms, of p]]) simp_all
qed

lemma kept_ret: "kept (ret v)"
  unfolding kept_def by (intro allI obeys_ret)

lemma kept_bind: "kept m \<Longrightarrow> (\<And>v. kept (f v)) \<Longrightarrow> kept (bind m f)"
  unfolding kept_def by (intro allI obeys_bind) auto

lemmas kept_intros = kept_bind kept_lift kept_ret in_operators

lemma kept_import: "kept (import_module x name names)"
  unfolding import_module_def by (rule kept_call) simp_all

lemma kept_train_imports: "kept (train_imports x)"
  unfolding train_imports_def by (intro kept_intros kept_import)

lemma kept_find_files: "kept (find_files x config key)"
  unfolding find_files_def by (intro kept_intros kept_call) simp_all

lemma kept_batch_size: "kept (batch_size config)"
  unfolding batch_size_def by (intro kept_intros)

lemma kept_shape_info: "kept (shape_info config)"
  unfolding shape_info_def by (intro kept_intros)

lemma kept_train_pipe: "kept (train_pipe x config files)"
  unfolding train_pipe_def by (intro kept_intros kept_batch_size kept_shape_info kept_call) simp_all

lemma kept_test_pipe: "kept (test_pipe x config files)"
  unfolding test_pipe_def by (intro kept_intros kept_batch_size kept_shape_info kept_call) simp_all

lemma obeys_log_path:
  "obeys (\<lambda>\<sigma>. fst \<sigma> = p) (log_path x go name)
     (\<lambda>path \<sigma>. fst \<sigma> = p \<and> (\<exists>q. path = Plain (PStr (path_join q name))))"
  unfolding log_path_def
proof (rule obeys_bind)
  show "obeys (\<lambda>\<sigma>. fst \<sigma> = p) (call x ''trainer.log_path'' [go] []) (\<lambda>_ \<sigma>. fst \<sigma> = p)"
    using kept_call[of "''trainer.log_path''" x "[go]" "[]"] by (simp add: kept_def)
next
  fix folder
  show "obeys (\<lambda>\<sigma>. fst \<sigma> = p) (lift ''os.path.join'' (os_path_join folder (Plain (PStr name))))
          (\<lambda>path \<sigma>. fst \<sigma> = p \<and> (\<exists>q. path = Plain (PStr (path_join q name))))"
    by (rule obeys_weaken[OF obeys_lift[OF in_operators(12), of p]])
      (auto dest: os_path_join_Inr)
qed

lemma obeys_stamp:
  "obeys (\<lambda>\<sigma>. fst \<sigma> = p) (call x ''utils.get_timestamp'' [] []) (\<lambda>stamp \<sigma>. \<sigma> = (p, Some stamp))"
  by (rule obeys_call) (auto simp: step_def returned_def split: sum.splits)

lemma obeys_start:
  "obeys (\<lambda>\<sigma>. \<sigma> = (Before, Some ts))
     (call x ''utils.log_to'' [Plain (PStr (path_join q ''config.yaml'')), Seq [ts, Plain (PStr starting)]] kw)
     (\<lambda>_ \<sigma>. fst \<sigma> = Started)"
  by (rule obeys_call)
    (auto simp: step_def log_message_def ends_with_config raised_def starting_def ending_def split: sum.splits)

lemma obeys_end:
  "obeys (\<lambda>\<sigma>. \<sigma> = (Trained, Some ts))
     (call x ''utils.log_to'' [Plain (PStr (path_join q ''config.yaml'')), Seq [ts, Plain (PStr ending)]] kw)
     (\<lambda>_ \<sigma>. fst \<sigma> = Ended)"
  by (rule obeys_call)
    (auto simp: step_def log_message_def ends_with_config raised_def starting_def ending_def split: sum.splits)

lemma obeys_train:
  "obeys (\<lambda>\<sigma>. fst \<sigma> = Started) (call x ''trainer.train'' [go] []) (\<lambda>_ \<sigma>. fst \<sigma> = Trained)"
  by (rule obeys_call) (auto simp: step_def raised_def split: sum.splits)

lemma obeys_log_files:
  "obeys (\<lambda>\<sigma>. fst \<sigma> = p)
     (call x ''utils.log_to'' [Plain (PStr (path_join q ''training files'')), files] kw)
     (\<lambda>_ \<sigma>. fst \<sigma> = p)"
  by (rule obeys_call)
    (auto simp: step_def log_message_def ends_with_files split: sum.splits pyval.splits list.splits pyobj.splits)

lemma kept_obeys: "kept m \<Longrightarrow> obeys (\<lambda>\<sigma>. fst \<sigma> = p) m (\<lambda>_ \<sigma>. fst \<sigma> = p)"
  by (simp add: kept_def)

lemma obeys_marker:
  assumes last: "\<And>q ts. obeys (\<lambda>\<sigma>. \<sigma> = (p, Some ts))
     (call x ''utils.log_to'' [Plain (PStr (path_join q ''config.yaml'')), Seq [ts, Plain (PStr message)]]
        [(''prefix'', Plain (PStr ''#''))])
     (\<lambda>_ \<sigma>. fst \<sigma> = p')"
  shows "obeys (\<lambda>\<sigma>. fst \<sigma> = p) (log_marker x go message) (\<lambda>_ \<sigma>. fst \<sigma> = p')"
  unfolding log_marker_def
proof (rule obeys_bind[OF obeys_log_path])
  fix path
  show "obeys (\<lambda>\<sigma>. fst \<sigma> = p \<and> (\<exists>q. path = Plain (PStr (path_join q ''config.yaml''))))
          (bind (call x ''utils.get_timestamp'' [] [])
             (\<lambda>stamp. call x ''utils.log_to'' [path, Seq [stamp, Plain (PStr message)]]
                          [(''prefix'', Plain (PStr ''#''))]))
          (\<lambda>_ \<sigma>. fst \<sigma> = p')"
  proof (rule obeys_assume)
    assume "\<exists>q. path = Plain (PStr (path_join q ''config.yaml''))"
    then obtain q where path: "path = Plain (PStr (path_join q ''config.yaml''))" ..
    show "obeys (\<lambda>\<sigma>. fst \<sigma> = p)
          (bind (call x ''utils.get_timestamp'' [] [])
             (\<lambda>stamp. call x ''utils.log_to'' [path, Seq [stamp, Plain (PStr message)]]
                          [(''prefix'', Plain (PStr ''#''))]))
          (\<lambda>_ \<sigma>. fst \<sigma> = p')"
      unfolding path by (rule obeys_bind[OF obeys_stamp]) (rule last)
  qed
qed

lemma obeys_files_log:
  "obeys (\<lambda>\<sigma>. fst \<sigma> = p)
     (bind (log_path x go ''training files'')
        (\<lambda>files_log. call x ''utils.log_to'' [files_log, train_files] kw))
     (\<lambda>_ \<sigma>. fst \<sigma> = p)"
proof (rule obeys_bind[OF obeys_log_path])
  fix path
  show "obeys (\<lambda>\<sigma>. fst \<sigma> = p \<and> (\<exists>q. path = Plain (PStr (path_join q ''training files''))))
          (call x ''utils.log_to'' [path, train_files] kw) (\<lambda>_ \<sigma>. fst \<sigma> = p)"
  proof (rule obeys_assume)
    assume "\<exists>q. path = Plain (PStr (path_join q ''training files''))"
    then obtain q where path: "path = Plain (PStr (path_join q ''training files''))" ..
    show "obeys (\<lambda>\<sigma>. fst \<sigma> = p) (call x ''utils.log_to'' [path, train_files] kw) (\<lambda>_ \<sigma>. fst \<sigma> = p)"
      unfolding path by (rule obeys_log_files)
  qed
qed

lemma obeys_train_body:
  "obeys (\<lambda>\<sigma>. fst \<sigma> = Before) (train_body x config) (\<lambda>_ \<sigma>. fst \<sigma> = Ended)"
  unfolding train_body_def bind_assoc[symmetric, of "log_path x go ''training files''" for go]
  apply (rule obeys_bind[OF kept_obeys[OF kept_find_files]])
  apply (rule obeys_bind[OF kept_obeys[OF kept_find_files]])
  apply (rule obeys_bind[OF kept_obeys[OF kept_import]])
  apply (rule obeys_bind[OF kept_obeys[OF kept_train_pipe]])
  apply (rule obeys_bind[OF kept_obeys[OF kept_test_pipe]])
  apply (rule obeys_bind[OF kept_obeys[OF kept_call]], simp, simp, simp)
  apply (rule obeys_bind[OF obeys_files_log])
  apply (rule obeys_bind[OF obeys_marker[OF obeys_start[unfolded starting_def]]])
  apply (rule obeys_bind[OF obeys_train])
  apply (rule obeys_bind[OF obeys_marker[OF obeys_end[unfolded ending_def]]])
  apply (rule obeys_bind[OF kept_obeys[OF kept_call]], simp, simp, simp)
  apply (rule obeys_ret)
  done

lemma obeys_train_script:
  "obeys (\<lambda>\<sigma>. fst \<sigma> = Before) (train_script x) (\<lambda>_ \<sigma>. fst \<sigma> = Ended)"
  unfolding train_script_def
  apply (rule obeys_bind[OF kept_obeys[OF kept_train_imports]])
  apply (rule obeys_bind[OF kept_obeys[OF kept_call]], simp, simp, simp)
  apply (rule obeys_train_body)
  done

definition marker :: "string \<Rightarrow> event list \<Rightarrow> nat \<Rightarrow> bool" where
  "marker message evs j \<longleftrightarrow>
     0 < j \<and> j < length evs \<and> raised (evs ! j) = None \<and>
     (\<exists>ts. log_message (evs ! j) = Some (ts, message) \<and>
           fname (evs ! (j - 1)) = ''utils.get_timestamp'' \<and> result (evs ! (j - 1)) = Inr ts)"

definition trained :: "event list \<Rightarrow> nat \<Rightarrow> bool" where
  "trained evs j \<longleftrightarrow> j < length evs \<and> fname (evs ! j) = ''trainer.train'' \<and> raised (evs ! j) = None"

definition ordered :: "event list \<Rightarrow> bool" where
  "ordered evs \<longleftrightarrow>
     (\<forall>i<length evs. fname (evs ! i) = ''trainer.train'' \<longrightarrow> (\<exists>j<i. marker starting evs j)) \<and>
     (\<forall>i<length evs. (\<exists>ts. log_message (evs ! i) = Some (ts, ending)) \<longrightarrow> (\<exists>j<i. trained evs j))"

definition tracks :: "event list \<Rightarrow> mon \<Rightarrow> bool" where
  "tracks evs \<sigma> \<longleftrightarrow>
     ordered evs \<and>
     (fst \<sigma> \<noteq> Before \<longrightarrow> (\<exists>j. marker starting evs j)) \<and>
     (fst \<sigma> = Trained \<or> fst \<sigma> = Ended \<longrightarrow> (\<exists>j. trained evs j)) \<and>
     (fst \<sigma> = Ended \<longrightarrow> (\<exists>j. marker ending evs j)) \<and>
     (\<forall>ts. snd \<sigma> = Some ts \<longrightarrow>
        evs \<noteq> [] \<and> fname (last evs) = ''utils.get_timestamp'' \<and> result (last evs) = Inr ts)"

lemma marker_snoc: "marker message xs j \<Longrightarrow> marker message (xs @ [ev]) j"
  by (auto simp: marker_def nth_append)

lemma trained_snoc: "trained xs j \<Longrightarrow> trained (xs @ [ev]) j"
  by (auto simp: trained_def nth_append)

lemma marker_less: "marker message xs j \<Longrightarrow> j < length xs"
  by (simp add: marker_def)

lemma trained_less: "trained xs j \<Longrightarrow> j < length xs"
  by (simp add: trained_def)

lemma marker_new:
  assumes "xs \<noteq> []" and "fname (last xs) = ''utils.get_timestamp''" and "result (last xs) = Inr ts"
    and "log_message ev = Some (ts, message)" and "raised ev = None"
  shows "marker message (xs @ [ev]) (length xs)"
proof -
  from assms(1) have "(xs @ [ev]) ! (length xs - 1) = last xs"
    by (simp add: nth_append last_conv_nth)
  with assms show ?thesis
    by (auto simp: marker_def)
qed

lemma ordered_snoc:
  assumes "ordered xs"
    and "fname ev = ''trainer.train'' \<Longrightarrow> \<exists>j. marker starting xs j"
    and "\<And>ts. log_message ev = Some (ts, ending) \<Longrightarrow> \<exists>j. trained xs j"
  shows "ordered (xs @ [ev])"
  unfolding ordered_def
proof (intro conjI allI impI)
  fix i
  assume i: "i < length (xs @ [ev])" and t: "fname ((xs @ [ev]) ! i) = ''trainer.train''"
  show "\<exists>j<i. marker starting (xs @ [ev]) j"
  proof (cases "i < length xs")
    case True
    with t assms(1) obtain j where "j < i" "marker starting xs j"
      by (auto simp: ordered_def nth_append)
    then show ?thesis
      by (auto intro: marker_snoc)
  next
    case False
    with i have "i = length xs"
      by simp
    with t assms(2) obtain j where "marker starting xs j"
      by auto
    with \<open>i = length xs\<close> show ?thesis
      by (auto intro: marker_snoc dest: marker_less)
  qed
next
  fix i
  assume i: "i < length (xs @ [ev])" and t: "\<exists>ts. log_message ((xs @ [ev]) ! i) = Some (ts, ending)"
  show "\<exists>j<i. trained (xs @ [ev]) j"
  proof (cases "i < length xs")
    case True
    with t assms(1) obtain j where "j < i" "trained xs j"
      by (auto simp: ordered_def nth_append)
    then show ?thesis
      by (auto intro: trained_snoc)
  next
    case False
    with i have "i = length xs"
      by simp
    with t assms(3) obtain j where "trained xs j"
      by auto
    with \<open>i = length xs\<close> show ?thesis
      by (auto intro: trained_snoc dest: trained_less)
  qed
qed

lemma tracks_step:
  assumes iv: "tracks xs \<sigma>" and st: "step \<sigma> ev = Some \<sigma>'"
  shows "tracks (xs @ [ev]) \<sigma>'"
proof -
  from iv have ord: "ordered xs"
    and started: "fst \<sigma> \<noteq> Before \<Longrightarrow> \<exists>j. marker starting xs j"
    and trn: "fst \<sigma> = Trained \<or> fst \<sigma> = Ended \<Longrightarrow> \<exists>j. trained xs j"
    and fin: "fst \<sigma> = Ended \<Longrightarrow> \<exists>j. marker ending xs j"
    and stamped: "\<And>ts. snd \<sigma> = Some ts \<Longrightarrow>
        xs \<noteq> [] \<and> fname (last xs) = ''utils.get_timestamp'' \<and> result (last xs) = Inr ts"
    by (auto simp: tracks_def)
  have keep: "tracks (xs @ [ev]) (fst \<sigma>, stamp)"
    if "ordered (xs @ [ev])" and "\<And>ts. stamp = Some ts \<Longrightarrow>
         fname ev = ''utils.get_timestamp'' \<and> result ev = Inr ts" for stamp
    using that started trn fin unfolding tracks_def
    by (auto intro: marker_snoc trained_snoc)
  have keep0: "tracks (xs @ [ev]) (fst \<sigma>, None)" if "ordered (xs @ [ev])"
    using that by (intro keep) simp_all
  consider (stamp) "fname ev = ''utils.get_timestamp''"
    | (train) "fname ev = ''trainer.train''"
    | (other) "fname ev \<noteq> ''utils.get_timestamp''" "fname ev \<noteq> ''trainer.train''"
    by blast
  then show ?thesis
  proof cases
    case stamp
    then have lm: "log_message ev = None"
      by (simp add: log_message_def)
    from stamp st have \<sigma>': "\<sigma>' = (fst \<sigma>, returned ev)"
      by (simp add: step_def)
    have "ordered (xs @ [ev])"
      using ord stamp lm by (intro ordered_snoc) simp_all
    moreover have "\<And>ts. returned ev = Some ts \<Longrightarrow> result ev = Inr ts"
      by (auto simp: returned_def split: sum.splits)
    ultimately show ?thesis
      unfolding \<sigma>' using stamp by (intro keep) simp_all
  next
    case train
    then have lm: "log_message ev = None"
      by (simp add: log_message_def)
    from train st have nb: "fst \<sigma> \<noteq> Before"
      and \<sigma>': "\<sigma>' = (if raised ev = None \<and> fst \<sigma> = Started then Trained else fst \<sigma>, None)"
      by (auto simp: step_def split: if_splits)
    have o: "ordered (xs @ [ev])"
      using ord started[OF nb] lm by (intro ordered_snoc) simp_all
    show ?thesis
    proof (cases "raised ev = None \<and> fst \<sigma> = Started")
      case True
      with train have "trained (xs @ [ev]) (length xs)"
        by (simp add: trained_def)
      then have "\<exists>j. trained (xs @ [ev]) j" ..
      moreover from started[OF nb] have "\<exists>j. marker starting (xs @ [ev]) j"
        by (auto intro: marker_snoc)
      ultimately show ?thesis
        unfolding tracks_def using o \<sigma>' True by simp
    next
      case False
      with \<sigma>' have "\<sigma>' = (fst \<sigma>, None)"
        by auto
      with o show ?thesis
        by (simp add: keep0)
    qed
  next
    case other
    show ?thesis
    proof (cases "log_message ev")
      case None
      with other st have \<sigma>': "\<sigma>' = (fst \<sigma>, None)"
        by (simp add: step_def)
      have "ordered (xs @ [ev])"
        using ord other None by (intro ordered_snoc) simp_all
      then show ?thesis
        unfolding \<sigma>' by (rule keep0)
    next
      case (Some tm)
      obtain ts m where tm: "tm = (ts, m)"
        by (cases tm)
      consider (e) "m = ending" | (s) "m \<noteq> ending" "m = starting" | (n) "m \<noteq> ending" "m \<noteq> starting"
        by blast
      then show ?thesis
      proof cases
        case e
        with other Some tm st have tr: "fst \<sigma> = Trained \<or> fst \<sigma> = Ended" and sn: "snd \<sigma> = Some ts"
          and \<sigma>': "\<sigma>' = (if raised ev = None then Ended else fst \<sigma>, None)"
          by (auto simp: step_def split: if_splits)
        have o: "ordered (xs @ [ev])"
          using ord other trn[OF tr] by (intro ordered_snoc) simp_all
        show ?thesis
        proof (cases "raised ev = None")
          case True
          from stamped[OF sn] True Some tm e have "marker ending (xs @ [ev]) (length xs)"
            by (intro marker_new[where ts = ts]) simp_all
          then have "\<exists>j. marker ending (xs @ [ev]) j" ..
          moreover from tr have "fst \<sigma> \<noteq> Before"
            by auto
          from started[OF this] have "\<exists>j. marker starting (xs @ [ev]) j"
            by (auto intro: marker_snoc)
          moreover from trn[OF tr] have "\<exists>j. trained (xs @ [ev]) j"
            by (auto intro: trained_snoc)
          ultimately show ?thesis
            unfolding tracks_def using o \<sigma>' True by simp
        next
          case False
          with \<sigma>' have "\<sigma>' = (fst \<sigma>, None)"
            by auto
          with o show ?thesis
            by (simp add: keep0)
        qed
      next
        case s
        with other Some tm st have sn: "snd \<sigma> = Some ts"
          and \<sigma>': "\<sigma>' = (if raised ev = None \<and> fst \<sigma> = Before then Started else fst \<sigma>, None)"
          by (auto simp: step_def split: if_splits)
        have o: "ordered (xs @ [ev])"
        proof (rule ordered_snoc[OF ord])
          assume "fname ev = ''trainer.train''"
          with other show "\<exists>j. marker starting xs j"
            by simp
        next
          fix ts'
          assume "log_message ev = Some (ts', ending)"
          with Some tm s show "\<exists>j. trained xs j"
            by (simp add: starting_def ending_def)
        qed
        show ?thesis
        proof (cases "raised ev = None \<and> fst \<sigma> = Before")
          case True
          from stamped[OF sn] True Some tm s have "marker starting (xs @ [ev]) (length xs)"
            by (intro marker_new[where ts = ts]) simp_all
          then have "\<exists>j. marker starting (xs @ [ev]) j" ..
          then show ?thesis
            unfolding tracks_def using o \<sigma>' True by simp
        next
          case False
          with \<sigma>' have "\<sigma>' = (fst \<sigma>, None)"
            by auto
          with o show ?thesis
            by (simp add: keep0)
        qed
      next
        case n
        with other Some tm st have \<sigma>': "\<sigma>' = (fst \<sigma>, None)"
          by (simp add: step_def)
        have "ordered (xs @ [ev])"
        proof (rule ordered_snoc[OF ord])
          assume "fname ev = ''trainer.train''"
          with other show "\<exists>j. marker starting xs j"
            by simp
        next
          fix ts'
          assume "log_message ev = Some (ts', ending)"
          with Some tm n show "\<exists>j. trained xs j"
            by simp
        qed
        then show ?thesis
          unfolding \<sigma>' by (rule keep0)
      qed
    qed
  qed
qed

lemma monitor_snoc:
  "monitor \<sigma> (xs @ [ev]) = (case monitor \<sigma> xs of None \<Rightarrow> None | Some \<sigma>' \<Rightarrow> step \<sigma>' ev)"
  by (simp add: monitor_append split: option.splits)

lemma monitor_tracks: "monitor (Before, None) evs = Some \<sigma> \<Longrightarrow> tracks evs \<sigma>"
proof (induction evs arbitrary: \<sigma> rule: rev_induct)
  case Nil
  then show ?case
    by (auto simp: tracks_def ordered_def marker_def trained_def)
next
  case (snoc ev xs)
  from snoc.prems obtain \<sigma>1 where m: "monitor (Before, None) xs = Some \<sigma>1" and s: "step \<sigma>1 ev = Some \<sigma>"
    by (auto simp: monitor_snoc split: option.splits)
  from snoc.IH[OF m] s show ?case
    by (rule tracks_step)
qed

lemma ordered_chain:
  assumes "ordered evs" and "marker ending evs k"
  shows "\<exists>i j. i < j \<and> j < k \<and> marker starting evs i \<and> trained evs j"
proof -
  from assms(2) have "k < length evs" "\<exists>ts. log_message (evs ! k) = Some (ts, ending)"
    by (auto simp: marker_def)
  with assms(1) obtain j where j: "j < k" "trained evs j"
    by (auto simp: ordered_def)
  then have "j < length evs" "fname (evs ! j) = ''trainer.train''"
    by (auto simp: trained_def)
  with assms(1) obtain i where "i < j" "marker starting evs i"
    by (auto simp: ordered_def)
  with j show ?thesis
    by blast
qed

text \<open>\<^bold>\<open>C8\<close>. In every run of the training script, from any state and with any library:
  every call of \<open>trainer.train\<close> comes after a call that wrote the stamped message
  \<open>The training is starting\<close> to a \<open>config.yaml\<close> of the log folder and returned, the stamp being
  what \<open>utils.get_timestamp\<close> returned just before; every call that logs
  \<open>The training is ending\<close> comes after a call of \<open>trainer.train\<close> that returned; and a run that
  completes has written the start marker, then trained, then written the end marker.\<close>

theorem markers_around_training:
  "\<exists>evs. trace (snd (train_script x s)) = trace s @ evs \<and> ordered evs \<and>
     (\<forall>v. fst (train_script x s) = Inr v \<longrightarrow>
        (\<exists>i j k. i < j \<and> j < k \<and> marker starting evs i \<and> trained evs j \<and> marker ending evs k))"
proof -
  from obeys_train_script[unfolded obeys_def, rule_format, of "(Before, None)" x s]
  obtain evs where t: "trace (snd (train_script x s)) = trace s @ evs"
    and c: "case fst (train_script x s) of
              Inr v \<Rightarrow> (\<exists>\<sigma>'. monitor (Before, None) evs = Some \<sigma>' \<and> fst \<sigma>' = Ended)
            | Inl e \<Rightarrow> monitor (Before, None) evs \<noteq> None"
    by auto
  from c obtain \<sigma> where m: "monitor (Before, None) evs = Some \<sigma>"
    by (auto split: sum.splits)
  then have o: "ordered evs"
    by (auto dest: monitor_tracks simp: tracks_def)
  have "\<exists>i j k. i < j \<and> j < k \<and> marker starting evs i \<and> trained evs j \<and> marker ending evs k"
    if "fst (train_script x s) = Inr v" for v
  proof -
    from c that m have "fst \<sigma> = Ended"
      by simp
    with monitor_tracks[OF m] obtain k where "marker ending evs k"
      by (auto simp: tracks_def)
    with ordered_chain[OF o this] show ?thesis
      by blast
  qed
  with t o show ?thesis
    by blast
qed

section \<open>An example library for the training script\<close>

definition train_config :: "int \<Rightarrow> pyval" where
  "train_config g =
     Plain (PDict [(''train_data_path'', PStr ''train''), (''test_data_path'', PStr ''test''),
                   (''pattern'', PStr ''*.npz''), (''batch_size'', PInt 2), (''nr_gpu'', PInt g),
                   (''input_shape'', PList [PInt 256, PInt 256, PInt 2]), (''nr_levels'', PInt 10)])"

definition train_lib :: "int \<Rightarrow> bool \<Rightarrow> ext" where
  "train_lib g ok =
     \<lparr>lib = (\<lambda>f as kw w.
        if f = ''utils.load_config'' then (Inr (train_config g), w)
        else if f = ''utils.find_files'' then (Inr (Plain (PList [PStr ''a.npz''])), w)
        else if f = ''pipe.create_pipe'' then (Inr (Obj 1), w)
        else if f = ''trainer'' then (Inr (Obj 2), w)
        else if f = ''trainer.log_path'' then (Inr (Plain (PStr ''log'')), w)
        else if f = ''utils.get_timestamp'' then (Inr (Plain (PStr ''now'')), w\<lparr>env := Suc (env w)\<rparr>)
        else if f = ''trainer.train'' \<and> \<not> ok then (Inl (LibraryError ''out of memory''), w)
        else (Inr (Plain PNone), w)),
      lib_arr = (\<lambda>f as kw w. (Inl (LibraryError f), w))\<rparr>"

definition create_pipe_kwargs :: "int \<Rightarrow> kwargs" where
  "create_pipe_kwargs b =
     [(''batch_size'', Plain (PInt b)),
      (''shape_info'', Plain (PList [PList [PInt 256, PInt 256, PInt 2], PList [PInt 1]])),
      (''names'', pipe_names)]"

definition example_files :: pyval where
  "example_files = Plain (PList [PStr ''a.npz''])"

definition hash_prefix :: kwargs where
  "hash_prefix = [(''prefix'', Plain (PStr ''#''))]"

definition marker_events :: "string \<Rightarrow> event list" where
  "marker_events message =
     [Call ''trainer.log_path'' [Obj 2] [] (Inr (Plain (PStr ''log''))),
      Call ''utils.get_timestamp'' [] [] (Inr (Plain (PStr ''now''))),
      Call ''utils.log_to'' [Plain (PStr ''log/config.yaml''), Seq [Plain (PStr ''now''), Plain (PStr message)]]
        hash_prefix (Inr (Plain PNone))]"

definition import_event :: "string \<Rightarrow> string list \<Rightarrow> event" where
  "import_event name names =
     Call ''import'' [Plain (PStr name), Plain (PList (map PStr names))] [] (Inr (Plain PNone))"

definition setup_events :: "int \<Rightarrow> event list" where
  "setup_events g =
     [import_event ''spreco.common'' [''utils'', ''pipe''],
      import_event ''spreco.workbench.trainer'' [''trainer''],
      import_event ''os'' [],
      Call ''utils.load_config'' [Plain (PStr train_config_path)] [] (Inr (train_config g)),
      Call ''utils.find_files'' [Plain (PStr ''train''), Plain (PStr ''*.npz'')] [] (Inr example_files),
      Call ''utils.find_files'' [Plain (PStr ''test''), Plain (PStr ''*.npz'')] [] (Inr example_files),
      import_event ''numpy'' [],
      Call ''pipe.create_pipe'' [parts_funcs] ((''files'', example_files) # create_pipe_kwargs (2 * g)) (Inr (Obj 1)),
      Call ''pipe.create_pipe'' [parts_funcs, example_files] (create_pipe_kwargs (2 * g)) (Inr (Obj 1)),
      Call ''trainer'' [Obj 1, Obj 1, train_config g] [] (Inr (Obj 2)),
      Call ''trainer.log_path'' [Obj 2] [] (Inr (Plain (PStr ''log''))),
      Call ''utils.log_to'' [Plain (PStr ''log/training files''), example_files] hash_prefix (Inr (Plain PNone))]"

definition train_trace :: "int \<Rightarrow> event list" where
  "train_trace g =
     setup_events g @ marker_events ''The training is starting'' @
     [Call ''trainer.train'' [Obj 2] [] (Inr (Plain PNone))] @
     marker_events ''The training is ending'' @
     [Call ''utils.color_print'' [Plain (PStr ''TRAINING FINISHED'')] [] (Inr (Plain PNone))]"

definition failed_trace :: "int \<Rightarrow> event list" where
  "failed_trace g =
     setup_events g @ marker_events ''The training is starting'' @
     [Call ''trainer.train'' [Obj 2] [] (Inl (LibraryError ''out of memory''))]"

lemma train_lib_call:
  "lib (train_lib g ok) f as kw w =
     (if f = ''utils.load_config'' then (Inr (train_config g), w)
        else if f = ''utils.find_files'' then (Inr (Plain (PList [PStr ''a.npz''])), w)
        else if f = ''pipe.create_pipe'' then (Inr (Obj 1), w)
        else if f = ''trainer'' then (Inr (Obj 2), w)
        else if f = ''trainer.log_path'' then (Inr (Plain (PStr ''log'')), w)
        else if f = ''utils.get_timestamp'' then (Inr (Plain (PStr ''now'')), w\<lparr>env := Suc (env w)\<rparr>)
        else if f = ''trainer.train'' \<and> \<not> ok then (Inl (LibraryError ''out of memory''), w)
        else (Inr (Plain PNone), w))"
  by (simp add: train_lib_def)

lemma train_config_items:
  "subscript (train_config g) ''train_data_path'' = Inr (PStr ''train'')"
  "subscript (train_config g) ''test_data_path'' = Inr (PStr ''test'')"
  "subscript (train_config g) ''pattern'' = Inr (PStr ''*.npz'')"
  "subscript (train_config g) ''batch_size'' = Inr (PInt 2)"
  "subscript (train_config g) ''nr_gpu'' = Inr (PInt g)"
  "subscript (train_config g) ''input_shape'' = Inr (PList [PInt 256, PInt 256, PInt 2])"
  "subscript (train_config g) ''nr_levels'' = Inr (PInt 10)"
  by (simp_all add: train_config_def subscript_def)

lemmas train_defs = train_script_def train_body_def find_files_def train_pipe_def test_pipe_def
  batch_size_def shape_info_def log_path_def log_marker_def train_imports_def import_module_def

lemma train_run:
  "train_script (train_lib g True) (start 0) =
     (Inr (), \<lparr>outside = \<lparr>rng = 0, env = 2\<rparr>, trace = train_trace g\<rparr>)"
  by (simp add: train_defs run_simps train_lib_call train_config_items start_def py_mul_def
        os_path_join_def path_join_def)
    (simp add: tail_simps train_trace_def setup_events_def marker_events_def create_pipe_kwargs_def
        example_files_def hash_prefix_def import_event_def)

lemma failed_run:
  "train_script (train_lib g False) (start 0) =
     (Inl (LibraryError ''out of memory''), \<lparr>outside = \<lparr>rng = 0, env = 1\<rparr>, trace = failed_trace g\<rparr>)"
  by (simp add: train_defs run_simps train_lib_call train_config_items start_def py_mul_def
        os_path_join_def path_join_def)
    (simp add: tail_simps failed_trace_def setup_events_def marker_events_def create_pipe_kwargs_def
        example_files_def hash_prefix_def import_event_def)

lemma trace_start: "trace (start r) = []"
  by (simp add: start_def)

theorem markers_around_training_witness:
  "fst (train_script (train_lib 1 True) (start 0)) = Inr () \<and> ordered (train_trace 1) \<and>
   (\<exists>i j k. i < j \<and> j < k \<and> marker starting (train_trace 1) i \<and> trained (train_trace 1) j \<and>
      marker ending (train_trace 1) k)"
  using markers_around_training[of "train_lib 1 True" "start 0"]
  by (simp add: train_run trace_start)

definition bad_mask :: ndarray where
  "bad_mask = \<lparr>shape = [3], data = [1, 0, 1]\<rparr>"

definition broken_trace :: "event list" where
  "broken_trace =
     [Call ''np.load'' [Plain (PStr ''k.npz'')] [] (Inr (Obj 0)),
      Call ''NpzFile.__getitem__'' [Obj 0, Plain (PStr ''kspace'')] [] (Inr (Arr example_kspace)),
      ecalib_call example_kspace example_kspace,
      Call ''ops.mifft2'' [Arr example_kspace, Plain (PList [PInt 2, PInt 2])] [] (Inr (Arr example_kspace)),
      Fault ''*'' ValueError]"

lemma bad_undersample: "undersample example_kspace bad_mask = Inl ValueError"
  by (simp add: undersample_def np_multiply_def np_binop_def broadcast_shape_def pad_def bdim_def
      np_abs_def newaxis_back_def example_kspace_def bad_mask_def)

lemma broken_run:
  "prepare_simu (example_lib False) (example_config False) (Some bad_mask) (start 0) =
     (Inl ValueError, \<lparr>outside = \<lparr>rng = 0, env = 0\<rparr>, trace = broken_trace\<rparr>)"
  by (simp add: prepare_simu_def run_simps Let_def example_simps bad_undersample)
    (simp add: tail_simps broken_trace_def ecalib_call_def ecalib_args_def)

lemma failed_end:
  "last (failed_trace g) = Call ''trainer.train'' [Obj 2] [] (Inl (LibraryError ''out of memory''))"
  by (simp add: failed_trace_def)

theorem exceptions_propagate_witness:
  "fst (train_script (train_lib 1 False) (start 0)) = Inl (LibraryError ''out of memory'') \<and>
   ends_as (fst (train_script (train_lib 1 False) (start 0))) (failed_trace 1) \<and>
   last (failed_trace 1) = Call ''trainer.train'' [Obj 2] [] (Inl (LibraryError ''out of memory'')) \<and>
   fst (prepare_simu (example_lib False) (example_config False) (Some bad_mask) (start 0)) = Inl ValueError \<and>
   ends_as (fst (prepare_simu (example_lib False) (example_config False) (Some bad_mask) (start 0)))
     broken_trace \<and>
   last broken_trace = Fault ''*'' ValueError"
proof -
  from exceptions_propagate[where x = "train_lib 1 False"]
  have "uncaught (train_script (train_lib 1 False))"
    by (rule conjunct1)
  from this[unfolded uncaught_def, rule_format, of "start 0"]
  have a: "ends_as (fst (train_script (train_lib 1 False) (start 0))) (failed_trace 1)"
    by (simp add: failed_run trace_start)
  from exceptions_propagate[where x = "example_lib False" and config = "example_config False"
      and given_mask = "Some bad_mask"]
  have "uncaught (prepare_simu (example_lib False) (example_config False) (Some bad_mask))"
    by simp
  from this[unfolded uncaught_def, rule_format, of "start 0"]
  have b: "ends_as (fst (prepare_simu (example_lib False) (example_config False) (Some bad_mask) (start 0)))
     broken_trace"
    by (simp add: broken_run trace_start)
  from a b show ?thesis
    by (simp add: failed_run broken_run failed_end broken_trace_def)
qed

section \<open>The data pipes\<close>





lemma train_pipe_returns:
  assumes "train_pipe x config files s = (Inr p, s')"
  shows "\<exists>kw. trace s' = trace s @ [Call ''pipe.create_pipe'' [parts_funcs] ((''files'', files) # kw) (Inr p)]"
  using assms unfolding train_pipe_def batch_size_def shape_info_def
  by (auto elim!: bind_InrE ret_InrE lift_InrE call_InrE)

lemma test_pipe_returns:
  assumes "test_pipe x config files s = (Inr p, s')"
  shows "\<exists>kw. trace s' = trace s @ [Call ''pipe.create_pipe'' [parts_funcs, files] kw (Inr p)]"
  using assms unfolding test_pipe_def batch_size_def shape_info_def
  by (auto elim!: bind_InrE ret_InrE lift_InrE call_InrE)








definition gets_parts :: "event \<Rightarrow> bool" where
  "gets_parts ev = (fname ev = ''pipe.create_pipe'' \<longrightarrow> take 1 (args ev) = [parts_funcs])"

lemma gets_parts_other: "f \<noteq> ''pipe.create_pipe'' \<Longrightarrow> gets_parts (Call f as kw r)"
  by (simp add: gets_parts_def)














end
